theory Spec2Isabelle
  imports Complex_Main
begin

section \<open>Numbers\<close>

text \<open>
  The scripts compute with Python floats. Finite floats are modelled as reals, so
  rounding is not part of the model; the two infinities \<^verbatim>\<open>np.inf\<close> and
  \<^verbatim>\<open>-np.inf\<close> are kept as values of their own, because the conversion code
  tests for \<^verbatim>\<open>np.inf\<close>.
\<close>

datatype pyfloat = Fin real | PosInf | NegInf

section \<open>Equivalent radius of the Fresnel surface\<close>

text \<open>
  \<^verbatim>\<open>n_bk7 = 1.517\<close> in every script that computes a radius.
\<close>

definition n_bk7 :: real where
  "n_bk7 = 1.517"

text \<open>
  \<^verbatim>\<open>LargeFresnelConcentrator._calculate_fresnel_radius\<close>
  (fresnel\_concentrator\_1.5m.py): \<^verbatim>\<open>radius = 2 * self.focal_length * (n_bk7 - 1)\<close>.
  The method reads \<^verbatim>\<open>self.focal_length\<close> only, which is the argument here.
\<close>

definition LargeFresnelConcentrator_calculate_fresnel_radius :: "real \<Rightarrow> real" where
  "LargeFresnelConcentrator_calculate_fresnel_radius focal_length =
     2 * focal_length * (n_bk7 - 1)"

text \<open>
  \<^verbatim>\<open>OptimizedFresnelConcentrator._calculate_fresnel_radius\<close>
  (optimized\_1.2m\_fresnel.py): \<^verbatim>\<open>radius = self.focal_length * (n_bk7 - 1)\<close>.
\<close>

definition OptimizedFresnelConcentrator_calculate_fresnel_radius :: "real \<Rightarrow> real" where
  "OptimizedFresnelConcentrator_calculate_fresnel_radius focal_length =
     focal_length * (n_bk7 - 1)"

text \<open>
  \<^verbatim>\<open>RealisticFresnelConcentrator.__init__\<close> (realistic\_power\_analysis.py), line 127:
  \<^verbatim>\<open>fresnel_radius = self.focal_length * (1.517 - 1)\<close>.
\<close>

definition RealisticFresnelConcentrator_fresnel_radius :: "real \<Rightarrow> real" where
  "RealisticFresnelConcentrator_fresnel_radius focal_length =
     focal_length * (1.517 - 1)"

text \<open>
  The focal length that \<^verbatim>\<open>LargeFresnelConcentrator.__init__\<close> sets before it
  calls the method: \<^verbatim>\<open>self.focal_length = 750.0\<close>.
\<close>

definition LargeFresnelConcentrator_focal_length :: real where
  "LargeFresnelConcentrator_focal_length = 750.0"

section \<open>The lens data model\<close>

text \<open>
  Modelled from the spec: the class \<^verbatim>\<open>optic.Optic\<close> and its construction
  interface (\<^verbatim>\<open>add_surface\<close>, \<^verbatim>\<open>set_aperture\<close>, \<^verbatim>\<open>set_field_type\<close>,
  \<^verbatim>\<open>add_field\<close>, \<^verbatim>\<open>add_wavelength\<close>) belong to the optical library, which is
  not among the source files. The records follow the data model of section 3 of the
  specification: a surface has a radius, a thickness, a material (or no medium), a
  stop flag and a conic constant; a wavelength has a value and a primary flag; a lens
  is a surface sequence with an aperture, a field set (the y-coordinates, of one
  declared type) and a wavelength set.
\<close>

datatype aperture_type = EPD | imageFNO | objectNA

datatype field_type = angle | object_height

record surface =
  radius :: pyfloat
  thickness :: pyfloat
  material :: "string option"
  is_stop :: bool
  conic :: real

record aperture_setting =
  ap_type :: aperture_type
  ap_value :: real

record wavelength =
  wl_value :: real
  is_primary :: bool

record optic =
  name :: "string option"
  surfaces :: "surface list"
  aperture :: "aperture_setting option"
  field_type :: "field_type option"
  fields_y :: "real list"
  wavelengths :: "wavelength list"

text \<open>
  Modelled from the spec: \<^verbatim>\<open>optic.Optic(name=...)\<close>, an empty lens. The name is
  \<open>None\<close> when the script leaves it to the library.
\<close>

definition Optic :: "string option \<Rightarrow> optic" where
  "Optic nm = \<lparr>name = nm, surfaces = [], aperture = None, field_type = None,
     fields_y = [], wavelengths = []\<rparr>"

text \<open>
  Modelled from the spec: the values \<^verbatim>\<open>add_surface\<close> uses for the keyword
  arguments a call leaves out: a flat surface of thickness 0 in air, not a stop,
  conic 0 (section 3: conic constant, default 0).
\<close>

definition default_surface :: surface where
  "default_surface = \<lparr>radius = PosInf, thickness = Fin 0, material = None,
     is_stop = False, conic = 0\<rparr>"

text \<open>
  Modelled from the spec: \<^verbatim>\<open>add_surface(index=i, ...)\<close> puts the surface at
  ordinal position \<open>i\<close> of the sequence. Every call in the scripts passes the current
  number of surfaces, where this appends.
\<close>

definition add_surface :: "nat \<Rightarrow> surface \<Rightarrow> optic \<Rightarrow> optic" where
  "add_surface i s l = l\<lparr>surfaces := take i (surfaces l) @ s # drop i (surfaces l)\<rparr>"

text \<open>Modelled from the spec: \<^verbatim>\<open>set_aperture(aperture_type=t, value=v)\<close>.\<close>

definition set_aperture :: "aperture_type \<Rightarrow> real \<Rightarrow> optic \<Rightarrow> optic" where
  "set_aperture t v l = l\<lparr>aperture := Some \<lparr>ap_type = t, ap_value = v\<rparr>\<rparr>"

text \<open>Modelled from the spec: \<^verbatim>\<open>set_field_type(field_type=t)\<close>.\<close>

definition set_field_type :: "field_type \<Rightarrow> optic \<Rightarrow> optic" where
  "set_field_type t l = l\<lparr>field_type := Some t\<rparr>"

text \<open>Modelled from the spec: \<^verbatim>\<open>add_field(y=v)\<close> appends to the ordered field list.\<close>

definition add_field :: "real \<Rightarrow> optic \<Rightarrow> optic" where
  "add_field v l = l\<lparr>fields_y := fields_y l @ [v]\<rparr>"

text \<open>
  Modelled from the spec: \<^verbatim>\<open>add_wavelength(value=v, is_primary=p)\<close> appends a
  wavelength and keeps the invariant of section 3 that exactly one wavelength of a
  wavelength set is primary. The first wavelength of a set is primary whatever flag
  it is given; a wavelength added as primary takes the marking from the others; a
  wavelength added as not primary leaves the marking where it is. A call that leaves
  \<^verbatim>\<open>is_primary\<close> out is written with \<open>False\<close>, as the scripts' comments intend
  (one wavelength per script is commented as primary, and it is the one passed
  \<^verbatim>\<open>is_primary=True\<close>).
\<close>

definition add_wavelength :: "real \<Rightarrow> bool \<Rightarrow> optic \<Rightarrow> optic" where
  "add_wavelength v p l =
     (if wavelengths l = []
      then l\<lparr>wavelengths := [\<lparr>wl_value = v, is_primary = True\<rparr>]\<rparr>
      else if p
      then l\<lparr>wavelengths := map (\<lambda>w. w\<lparr>is_primary := False\<rparr>) (wavelengths l)
                                @ [\<lparr>wl_value = v, is_primary = True\<rparr>]\<rparr>
      else l\<lparr>wavelengths := wavelengths l @ [\<lparr>wl_value = v, is_primary = False\<rparr>]\<rparr>)"

text \<open>
  The structural invariants of section 3 as executable counts: the number of
  surfaces marked stop and the number of wavelengths marked primary.
\<close>

definition num_stops :: "optic \<Rightarrow> nat" where
  "num_stops l = length (filter is_stop (surfaces l))"

definition num_primary :: "optic \<Rightarrow> nat" where
  "num_primary l = length (filter is_primary (wavelengths l))"

section \<open>Exceptions\<close>

text \<open>
  The exceptions the modelled code can raise: an attribute that does not resolve
  (class name and attribute name), a failure of the file system calls, a key that a
  dictionary does not have, and a name that is not bound.
\<close>

datatype py_exception =
    AttributeError string string
  | OSError
  | KeyError string
  | NameError string

section \<open>The lens builders of the scripts\<close>

text \<open>
  A builder is a sequence of statements, each of which updates the lens under
  construction; \<open>statements\<close> runs them in the order the script writes them.
\<close>

definition statements :: "('s \<Rightarrow> 's) list \<Rightarrow> 's \<Rightarrow> 's" where
  "statements fs s = foldl (\<lambda>s f. f s) s fs"

text \<open>
  \<^verbatim>\<open>OptilandAutoLensIntegration.create_realistic_fresnel_lens\<close>
  (optiland\_autolens\_integration.py, lines 264-292). The two custom attributes set
  at the end (\<^verbatim>\<open>diameter\<close>, \<^verbatim>\<open>focal_length = 1265.0\<close>) are outside the data
  model; the second is kept as a constant of its own.
\<close>

definition create_realistic_fresnel_lens :: optic where
  "create_realistic_fresnel_lens = statements
     [add_surface 0 (default_surface\<lparr>thickness := PosInf\<rparr>),
      add_surface 1 (default_surface\<lparr>thickness := Fin 8.0, radius := Fin 653.245,
                       is_stop := True, material := Some ''N-BK7''\<rparr>),
      add_surface 2 (default_surface\<lparr>thickness := Fin 1265.0, radius := Fin (- 653.245)\<rparr>),
      add_surface 3 default_surface,
      set_aperture EPD 1200,
      set_field_type angle,
      add_field 0,
      add_field 0.25,
      add_wavelength 0.486 False,
      add_wavelength 0.587 True,
      add_wavelength 0.656 False]
     ((Optic None)\<lparr>name := Some ''1.2m_Fresnel_Concentrator''\<rparr>)"

definition create_realistic_fresnel_lens_focal_length :: real where
  "create_realistic_fresnel_lens_focal_length = 1265.0"

text \<open>
  \<^verbatim>\<open>OptimizedFresnelConcentrator.__init__\<close> (optimized\_1.2m\_fresnel.py, lines
  34-97). The focal length is computed from the design parameters before the
  surfaces are added.
\<close>

definition OptimizedFresnelConcentrator_focal_length :: real where
  "OptimizedFresnelConcentrator_focal_length =
     (let diameter = 1200.0;
          target_distance = 400.0;
          target_optical_density = 10.0;
          lens_area = pi * (diameter / 2)\<^sup>2;
          target_beam_area = lens_area / target_optical_density;
          target_beam_radius = sqrt (target_beam_area / pi);
          divergence_angle = arctan (target_beam_radius / target_distance)
      in (diameter / 2) / tan divergence_angle)"

definition OptimizedFresnelConcentrator :: optic where
  "OptimizedFresnelConcentrator = statements
     [add_surface 0 (default_surface\<lparr>thickness := PosInf\<rparr>),
      add_surface 1 (default_surface\<lparr>radius := Fin
                         (OptimizedFresnelConcentrator_calculate_fresnel_radius
                            OptimizedFresnelConcentrator_focal_length),
                       thickness := Fin 8.0, material := Some ''N-BK7'', is_stop := True\<rparr>),
      add_surface 2 (default_surface\<lparr>radius := PosInf,
                       thickness := Fin OptimizedFresnelConcentrator_focal_length\<rparr>),
      add_surface 3 default_surface,
      set_aperture EPD 1200.0,
      set_field_type angle,
      add_field 0.0,
      add_field 0.25,
      add_wavelength 0.486 True,
      add_wavelength 0.587 False,
      add_wavelength 0.656 False]
     ((Optic None)\<lparr>name := Some ''Optimized_Fresnel_1.2m''\<rparr>)"

text \<open>
  \<^verbatim>\<open>WideAngleFisheyeLens.__init__\<close> (wide\_angle\_fisheye\_optimizer.py, lines
  41-152): \<^verbatim>\<open>_build_optical_system\<close>, \<^verbatim>\<open>_configure_fields\<close> (a loop over the
  seven angles) and \<^verbatim>\<open>_configure_wavelengths\<close>.
\<close>

definition WideAngleFisheyeLens :: optic where
  "WideAngleFisheyeLens = statements
     ([add_surface 0 (default_surface\<lparr>radius := PosInf, thickness := PosInf\<rparr>),
       add_surface 1 (default_surface\<lparr>radius := Fin (- 25.0), thickness := Fin 3.0,
                        material := Some ''N-SF11''\<rparr>),
       add_surface 2 (default_surface\<lparr>radius := Fin (- 40.0), thickness := Fin 6.0\<rparr>),
       add_surface 3 (default_surface\<lparr>radius := Fin (- 20.0), thickness := Fin 2.5,
                        material := Some ''N-SF11''\<rparr>),
       add_surface 4 (default_surface\<lparr>radius := Fin (- 30.0), thickness := Fin 5.0\<rparr>),
       add_surface 5 (default_surface\<lparr>radius := PosInf, thickness := Fin 3.0,
                        is_stop := True\<rparr>),
       add_surface 6 (default_surface\<lparr>radius := Fin 15.0, thickness := Fin 3.5,
                        material := Some ''N-BK7''\<rparr>),
       add_surface 7 (default_surface\<lparr>radius := Fin (- 12.0), thickness := Fin 4.0\<rparr>),
       add_surface 8 (default_surface\<lparr>radius := Fin 18.0, thickness := Fin 3.0,
                        material := Some ''N-LAK12''\<rparr>),
       add_surface 9 (default_surface\<lparr>radius := Fin (- 14.0), thickness := Fin 3.0\<rparr>),
       add_surface 10 (default_surface\<lparr>radius := Fin 16.0, thickness := Fin 2.5,
                         material := Some ''N-BK7''\<rparr>),
       add_surface 11 (default_surface\<lparr>radius := Fin (- 18.0), thickness := Fin 10.0\<rparr>),
       add_surface 12 default_surface,
       set_aperture EPD 1.5,
       set_field_type angle]
      @ map add_field [0, 15, 30, 45, 60, 75, 85]
      @ [add_wavelength 0.460 False,
         add_wavelength 0.550 True,
         add_wavelength 0.620 False])
     (Optic (Some ''Fisheye_170deg''))"

text \<open>
  \<^verbatim>\<open>SimpleEndoscope.__init__\<close> (simple\_endoscope\_4mm.py, lines 9-45).
\<close>

definition SimpleEndoscope :: optic where
  "SimpleEndoscope = statements
     [add_surface 0 (default_surface\<lparr>thickness := PosInf\<rparr>),
      add_surface 1 (default_surface\<lparr>radius := Fin 8.0, thickness := Fin 3.0,
                       material := Some ''N-BK7''\<rparr>),
      add_surface 2 (default_surface\<lparr>radius := Fin (- 12.0), thickness := Fin 5.0\<rparr>),
      add_surface 3 (default_surface\<lparr>thickness := Fin 2.0, is_stop := True\<rparr>),
      add_surface 4 (default_surface\<lparr>radius := Fin (- 6.0), thickness := Fin 2.0,
                       material := Some ''N-SF11''\<rparr>),
      add_surface 5 (default_surface\<lparr>radius := Fin 10.0, thickness := Fin 8.0\<rparr>),
      add_surface 6 (default_surface\<lparr>radius := Fin 5.0, thickness := Fin 3.0,
                       material := Some ''N-BK7''\<rparr>),
      add_surface 7 (default_surface\<lparr>radius := Fin (- 8.0), thickness := Fin 7.0\<rparr>),
      add_surface 8 default_surface,
      set_aperture EPD 3.0,
      set_field_type angle,
      add_field 0,
      add_field 5,
      add_field 10,
      add_wavelength 0.486 False,
      add_wavelength 0.588 True,
      add_wavelength 0.656 False]
     (Optic None)"

text \<open>
  \<^verbatim>\<open>LargeFresnelConcentrator.__init__\<close> (fresnel\_concentrator\_1.5m.py, lines
  35-81).
\<close>

definition LargeFresnelConcentrator :: optic where
  "LargeFresnelConcentrator = statements
     [add_surface 0 (default_surface\<lparr>thickness := PosInf\<rparr>),
      add_surface 1 (default_surface\<lparr>radius := Fin
                         (LargeFresnelConcentrator_calculate_fresnel_radius
                            LargeFresnelConcentrator_focal_length),
                       thickness := Fin 5.0, material := Some ''N-BK7'', is_stop := True\<rparr>),
      add_surface 2 (default_surface\<lparr>radius := PosInf,
                       thickness := Fin LargeFresnelConcentrator_focal_length\<rparr>),
      add_surface 3 default_surface,
      set_aperture EPD 1500.0,
      set_field_type angle,
      add_field 0.0,
      add_field 0.25,
      add_field 0.5,
      add_wavelength 0.400 False,
      add_wavelength 0.550 True,
      add_wavelength 0.700 False]
     ((Optic None)\<lparr>name := Some ''Fresnel_Concentrator_1.5m''\<rparr>)"

text \<open>
  \<^verbatim>\<open>RealisticSolarConcentrator.__init__\<close> and
  \<^verbatim>\<open>_calculate_fresnel_radius\<close> (realistic\_fresnel\_solar\_concentrator.py, lines
  35-118). The argument \<^verbatim>\<open>target_concentration\<close> is stored on the instance and
  does not enter the surfaces.
\<close>

definition RealisticSolarConcentrator_focal_length :: real where
  "RealisticSolarConcentrator_focal_length =
     (let diameter = 1200.0;
          target_distance = 400.0;
          target_concentration_at_distance = 10.0;
          lens_area = pi * (diameter / 2)\<^sup>2;
          target_beam_area = lens_area / target_concentration_at_distance;
          target_beam_radius = sqrt (target_beam_area / pi);
          divergence_angle = arctan (target_beam_radius / target_distance)
      in (diameter / 2) / tan divergence_angle)"

definition RealisticSolarConcentrator_calculate_fresnel_radius :: "real \<Rightarrow> real" where
  "RealisticSolarConcentrator_calculate_fresnel_radius focal_length =
     focal_length * (n_bk7 - 1)"

definition RealisticSolarConcentrator :: "real \<Rightarrow> optic" where
  "RealisticSolarConcentrator target_concentration = statements
     [add_surface 0 (default_surface\<lparr>thickness := PosInf\<rparr>),
      add_surface 1 (default_surface\<lparr>radius := Fin
                         (RealisticSolarConcentrator_calculate_fresnel_radius
                            RealisticSolarConcentrator_focal_length),
                       thickness := Fin 10.0, material := Some ''N-BK7'', is_stop := True\<rparr>),
      add_surface 2 (default_surface\<lparr>radius := PosInf,
                       thickness := Fin RealisticSolarConcentrator_focal_length\<rparr>),
      add_surface 3 default_surface,
      set_aperture EPD 1200.0,
      set_field_type angle,
      add_field 0.0,
      add_field 0.25,
      add_wavelength 0.486 True,
      add_wavelength 0.587 False,
      add_wavelength 0.656 False]
     ((Optic None)\<lparr>name := Some ''Realistic_Solar_Concentrator_1.5m''\<rparr>)"

text \<open>
  \<^verbatim>\<open>RealisticFresnelConcentrator.__init__\<close> (realistic\_power\_analysis.py, lines
  96-148). The constructor first looks its argument up in the dictionary
  \<^verbatim>\<open>irradiance_conditions\<close> of \<^verbatim>\<open>RealisticPowerAnalysis\<close> (lines 35-43),
  which raises \<^verbatim>\<open>KeyError\<close> for a condition the dictionary does not have; the
  irradiance found is stored on the instance and does not enter the surfaces.
\<close>

definition irradiance_conditions :: "(string \<times> real) list" where
  "irradiance_conditions =
     [(''space_solar_constant'', 1361),
      (''am1_5_direct'', 900),
      (''peak_sun_conditions'', 1000),
      (''excellent_clear_day'', 800),
      (''typical_clear_day'', 700),
      (''partly_cloudy'', 500),
      (''heavy_overcast'', 200)]"

definition RealisticFresnelConcentrator_focal_length :: real where
  "RealisticFresnelConcentrator_focal_length =
     (let diameter = 1200.0;
          target_distance = 400.0;
          target_optical_density = 10.0;
          lens_area = pi * (diameter / 2)\<^sup>2;
          target_beam_area = lens_area / target_optical_density;
          target_beam_radius = sqrt (target_beam_area / pi);
          divergence_angle = arctan (target_beam_radius / target_distance)
      in (diameter / 2) / tan divergence_angle)"

definition RealisticFresnelConcentrator :: "string \<Rightarrow> py_exception + optic" where
  "RealisticFresnelConcentrator irradiance_condition =
     (case map_of irradiance_conditions irradiance_condition of
        None \<Rightarrow> Inl (KeyError irradiance_condition)
      | Some irradiance \<Rightarrow> Inr (statements
          [add_surface 0 (default_surface\<lparr>thickness := PosInf\<rparr>),
           add_surface 1 (default_surface\<lparr>radius := Fin
                              (RealisticFresnelConcentrator_fresnel_radius
                                 RealisticFresnelConcentrator_focal_length),
                            thickness := Fin 8.0, material := Some ''N-BK7'',
                            is_stop := True\<rparr>),
           add_surface 2 (default_surface\<lparr>radius := PosInf,
                            thickness := Fin RealisticFresnelConcentrator_focal_length\<rparr>),
           add_surface 3 default_surface,
           set_aperture EPD 1200.0,
           set_field_type angle,
           add_field 0.0,
           add_field 0.25,
           add_wavelength 0.486 True,
           add_wavelength 0.587 False,
           add_wavelength 0.656 False]
          ((Optic None)\<lparr>name := Some ''Realistic_Power_Fresnel_1.2m''\<rparr>)))"

text \<open>
  \<^verbatim>\<open>WideAngleFisheyeLens.__init__\<close> of the second fisheye script
  (fisheye\_170\_optimizer\_v2.py, lines 25-122). The class has the name of the one
  in wide\_angle\_fisheye\_optimizer.py and another prescription.
\<close>

definition WideAngleFisheyeLens_v2 :: optic where
  "WideAngleFisheyeLens_v2 = statements
     ([add_surface 0 (default_surface\<lparr>thickness := PosInf\<rparr>),
       add_surface 1 (default_surface\<lparr>thickness := Fin 5, radius := Fin (- 25.0),
                        material := Some ''N-SF11''\<rparr>),
       add_surface 2 (default_surface\<lparr>thickness := Fin 3, radius := Fin (- 40.0)\<rparr>),
       add_surface 3 (default_surface\<lparr>thickness := Fin 2, radius := Fin (- 20.0),
                        material := Some ''N-SF11''\<rparr>),
       add_surface 4 (default_surface\<lparr>thickness := Fin 3, radius := Fin (- 30.0)\<rparr>),
       add_surface 5 (default_surface\<lparr>thickness := Fin 8.0\<rparr>),
       add_surface 6 (default_surface\<lparr>thickness := Fin 4, radius := Fin 18.0,
                        material := Some ''N-BK7'', is_stop := True\<rparr>),
       add_surface 7 (default_surface\<lparr>thickness := Fin 5, radius := Fin (- 25.0)\<rparr>),
       add_surface 8 (default_surface\<lparr>thickness := Fin 3, radius := Fin 22.0,
                        material := Some ''N-BK7''\<rparr>),
       add_surface 9 (default_surface\<lparr>thickness := Fin 5, radius := Fin (- 18.0)\<rparr>),
       add_surface 10 (default_surface\<lparr>thickness := Fin 4, radius := Fin 20.0,
                         material := Some ''N-LAK12''\<rparr>),
       add_surface 11 (default_surface\<lparr>thickness := Fin 6, radius := Fin (- 16.0)\<rparr>),
       add_surface 12 (default_surface\<lparr>thickness := Fin 0\<rparr>),
       set_aperture EPD 20,
       set_field_type angle]
      @ map add_field [0, 15, 30, 45, 60, 75, 85]
      @ [add_wavelength 0.460 False,
         add_wavelength 0.550 True,
         add_wavelength 0.620 False])
     ((Optic None)\<lparr>name := Some ''Fisheye_170deg''\<rparr>)"

text \<open>
  \<^verbatim>\<open>EndoscopeLens.__init__\<close> of endoscope\_lens\_analysis.py (lines 31-114).
\<close>

definition EndoscopeLens_analysis :: optic where
  "EndoscopeLens_analysis = statements
     [add_surface 0 (default_surface\<lparr>thickness := PosInf\<rparr>),
      add_surface 1 (default_surface\<lparr>thickness := Fin 1.2, radius := Fin 1.8,
                       material := Some ''N-BK7'', is_stop := True\<rparr>),
      add_surface 2 (default_surface\<lparr>thickness := Fin 0.8, radius := Fin (- 2.2)\<rparr>),
      add_surface 3 (default_surface\<lparr>thickness := Fin 0.5\<rparr>),
      add_surface 4 (default_surface\<lparr>thickness := Fin 0.6, radius := Fin (- 3.5),
                       material := Some ''N-SF11''\<rparr>),
      add_surface 5 (default_surface\<lparr>thickness := Fin 0.4, radius := Fin 2.8\<rparr>),
      add_surface 6 (default_surface\<lparr>thickness := Fin 0.3\<rparr>),
      add_surface 7 (default_surface\<lparr>thickness := Fin 0.8, radius := Fin 2.0,
                       material := Some ''N-BK7''\<rparr>),
      add_surface 8 (default_surface\<lparr>thickness := Fin 0.6, radius := Fin (- 3.0)\<rparr>),
      add_surface 9 (default_surface\<lparr>thickness := Fin 0\<rparr>),
      set_aperture EPD 1.8,
      set_field_type angle,
      add_field 0,
      add_field 10,
      add_field 20,
      add_field 30,
      add_wavelength 0.450 False,
      add_wavelength 0.550 True,
      add_wavelength 0.650 False]
     ((Optic None)\<lparr>name := Some ''Endoscope_3mm_Sensor''\<rparr>)"

text \<open>
  \<^verbatim>\<open>EndoscopeLens.__init__\<close> of endoscope\_lens\_simple.py (lines 31-69).
\<close>

definition EndoscopeLens_simple :: optic where
  "EndoscopeLens_simple = statements
     [add_surface 0 (default_surface\<lparr>thickness := PosInf\<rparr>),
      add_surface 1 (default_surface\<lparr>radius := Fin 3.0, thickness := Fin 2.0,
                       material := Some ''N-BK7''\<rparr>),
      add_surface 2 (default_surface\<lparr>radius := Fin (- 5.0), thickness := Fin 1.0\<rparr>),
      add_surface 3 (default_surface\<lparr>radius := Fin (- 8.0), thickness := Fin 1.0,
                       material := Some ''N-SF11''\<rparr>),
      add_surface 4 (default_surface\<lparr>radius := Fin 6.0, thickness := Fin 0.5\<rparr>),
      add_surface 5 (default_surface\<lparr>thickness := Fin 0.5, is_stop := True\<rparr>),
      add_surface 6 (default_surface\<lparr>radius := Fin 4.0, thickness := Fin 2.0,
                       material := Some ''N-BK7''\<rparr>),
      add_surface 7 (default_surface\<lparr>radius := Fin (- 4.0), thickness := Fin 5.0\<rparr>),
      add_surface 8 default_surface,
      set_aperture EPD 2.0,
      set_field_type angle,
      add_field 0,
      add_field 5,
      add_field 10,
      add_field 15,
      add_wavelength 0.486 False,
      add_wavelength 0.588 True,
      add_wavelength 0.656 False]
     ((Optic None)\<lparr>name := Some ''Medical_Endoscope_3.9mm''\<rparr>)"

text \<open>
  \<^verbatim>\<open>Endoscope.__init__\<close> (endoscope\_gallery\_exact.py, lines 10-72), with its
  local \<^verbatim>\<open>scale = 15.0\<close>.
\<close>

definition Endoscope_scale :: real where
  "Endoscope_scale = 15.0"

definition Endoscope :: optic where
  "Endoscope = (let scale = Endoscope_scale in statements
     [add_surface 0 (default_surface\<lparr>radius := PosInf, thickness := PosInf\<rparr>),
      add_surface 1 (default_surface\<lparr>radius := PosInf, thickness := Fin (0.5 * scale),
                       material := Some ''N-BK7''\<rparr>),
      add_surface 2 (default_surface\<lparr>radius := Fin (0.0284 * scale),
                       thickness := Fin (0.3 * scale)\<rparr>),
      add_surface 3 (default_surface\<lparr>radius := PosInf, thickness := Fin (0.1 * scale),
                       is_stop := True\<rparr>),
      add_surface 4 (default_surface\<lparr>radius := Fin (- 0.3742 * scale),
                       thickness := Fin (1.2 * scale), material := Some ''N-LAK12''\<rparr>),
      add_surface 5 (default_surface\<lparr>radius := Fin (- 0.0965 * scale),
                       thickness := Fin (0.08 * scale)\<rparr>),
      add_surface 6 (default_surface\<lparr>radius := Fin (0.7827 * scale),
                       thickness := Fin (1.0 * scale), material := Some ''SK16''\<rparr>),
      add_surface 7 (default_surface\<lparr>radius := Fin (- 0.0842 * scale),
                       thickness := Fin (0.3 * scale), material := Some ''SF4''\<rparr>),
      add_surface 8 (default_surface\<lparr>radius := Fin (- 0.3720 * scale),
                       thickness := Fin (3.0 * scale)\<rparr>),
      add_surface 9 (default_surface\<lparr>radius := Fin (0.5158 * scale),
                       thickness := Fin (0.8 * scale), material := Some ''N-LAF34''\<rparr>),
      add_surface 10 (default_surface\<lparr>radius := Fin (- 0.3939 * scale),
                        thickness := Fin (0.15 * scale), material := Some ''SF4''\<rparr>),
      add_surface 11 (default_surface\<lparr>radius := Fin (- 0.8018 * scale),
                        thickness := Fin (0.2 * scale)\<rparr>),
      add_surface 12 (default_surface\<lparr>radius := Fin (0.5380 * scale),
                        thickness := Fin (0.08 * scale), material := Some ''SF4''\<rparr>),
      add_surface 13 (default_surface\<lparr>radius := Fin (0.2073 * scale),
                        thickness := Fin (0.6 * scale), material := Some ''N-LAF34''\<rparr>),
      add_surface 14 (default_surface\<lparr>radius := Fin (- 0.3509 * scale),
                        thickness := Fin (0.25 * scale)\<rparr>),
      add_surface 15 (default_surface\<lparr>radius := Fin (0.5158 * scale),
                        thickness := Fin (0.5 * scale), material := Some ''N-LAF34''\<rparr>),
      add_surface 16 (default_surface\<lparr>radius := Fin (- 0.3939 * scale),
                        thickness := Fin (0.12 * scale), material := Some ''SF4''\<rparr>),
      add_surface 17 (default_surface\<lparr>radius := Fin (- 0.8018 * scale),
                        thickness := Fin (0.18 * scale)\<rparr>),
      add_surface 18 (default_surface\<lparr>radius := Fin (0.5380 * scale),
                        thickness := Fin (0.06 * scale), material := Some ''SF4''\<rparr>),
      add_surface 19 (default_surface\<lparr>radius := Fin (0.2073 * scale),
                        thickness := Fin (0.4 * scale), material := Some ''N-LAF34''\<rparr>),
      add_surface 20 (default_surface\<lparr>radius := Fin (- 0.3509 * scale),
                        thickness := Fin (0.2 * scale)\<rparr>),
      add_surface 21 (default_surface\<lparr>radius := Fin (0.5158 * scale),
                        thickness := Fin (0.3 * scale), material := Some ''N-LAF34''\<rparr>),
      add_surface 22 (default_surface\<lparr>radius := Fin (- 0.3939 * scale),
                        thickness := Fin (0.08 * scale), material := Some ''SF4''\<rparr>),
      add_surface 23 (default_surface\<lparr>radius := Fin (- 0.8018 * scale),
                        thickness := Fin (0.12 * scale)\<rparr>),
      add_surface 24 (default_surface\<lparr>radius := Fin (0.5380 * scale),
                        thickness := Fin (0.05 * scale), material := Some ''SF4''\<rparr>),
      add_surface 25 (default_surface\<lparr>radius := Fin (0.2073 * scale),
                        thickness := Fin (0.25 * scale), material := Some ''N-LAF34''\<rparr>),
      add_surface 26 (default_surface\<lparr>radius := Fin (- 0.3509 * scale),
                        thickness := Fin (0.1 * scale)\<rparr>),
      add_surface 27 default_surface,
      set_aperture imageFNO 1.8,
      set_field_type angle,
      add_field 0.0,
      add_field 6,
      add_field 12,
      add_wavelength 0.4861327 False,
      add_wavelength 0.5875618 True,
      add_wavelength 0.6562725 False]
     (Optic None))"

section \<open>The optimization problems of the scripts\<close>

text \<open>
  Modelled from the spec: \<^verbatim>\<open>optimization.OptimizationProblem\<close> with
  \<^verbatim>\<open>add_operand\<close> and \<^verbatim>\<open>add_variable\<close> belongs to the optical library. A
  problem is the list of operands and the list of variables in the order they were
  added (sections 3 and 4.3: an operand has a type, a target, a weight and its input
  data; a variable refers to a surface attribute and has a lower and an upper
  bound). The entry \<^verbatim>\<open>"optic": lens\<close> of the input data is a reference to the lens
  and is left out; \<^verbatim>\<open>distribution\<close> is \<open>None\<close> when the script does not pass it.
\<close>

record input_data =
  surface_number :: int
  Hx :: real
  Hy :: real
  num_rays :: nat
  op_wavelength :: real
  distribution :: "string option"

record operand =
  operand_type :: string
  target :: real
  weight :: real
  op_input :: input_data

record variable =
  var_attribute :: string
  var_surface_number :: nat
  min_val :: real
  max_val :: real

record optimization_problem =
  operands :: "operand list"
  variables :: "variable list"

definition OptimizationProblem :: optimization_problem where
  "OptimizationProblem = \<lparr>operands = [], variables = []\<rparr>"

definition add_operand :: "operand \<Rightarrow> optimization_problem \<Rightarrow> optimization_problem" where
  "add_operand p pr = pr\<lparr>operands := operands pr @ [p]\<rparr>"

definition add_variable :: "variable \<Rightarrow> optimization_problem \<Rightarrow> optimization_problem" where
  "add_variable v pr = pr\<lparr>variables := variables pr @ [v]\<rparr>"

text \<open>
  \<^verbatim>\<open>create_optimization_problem\<close> (wide\_angle\_fisheye\_optimizer.py, lines
  155-218). The field angles and the maximum angle are literals of the function; the
  lens is only referred to by the operands and the variables.
\<close>

definition field_angles :: "real list" where
  "field_angles = [0, 15, 30, 45, 60, 75, 85]"

definition max_angle :: real where
  "max_angle = 85.0"

definition normalized_fields :: "real list" where
  "normalized_fields = map (\<lambda>a. a / max_angle) field_angles"

definition radii_to_optimize :: "(nat \<times> nat) list" where
  "radii_to_optimize =
     [(1, 1), (2, 1), (3, 1), (4, 1), (6, 1), (7, 1), (8, 1), (9, 1), (10, 1), (11, 1)]"

definition create_optimization_problem :: "optic \<Rightarrow> optimization_problem" where
  "create_optimization_problem lens = statements
     (map (\<lambda>hy_norm. add_operand
             \<lparr>operand_type = ''rms_spot_size'', target = 0, weight = 1,
              op_input = \<lparr>surface_number = - 1, Hx = 0.0, Hy = hy_norm, num_rays = 31,
                          op_wavelength = 0.550, distribution = Some ''hexapolar''\<rparr>\<rparr>)
          normalized_fields
      @ map (\<lambda>(surface_idx, mode). add_variable
             \<lparr>var_attribute = ''radius'', var_surface_number = surface_idx,
              min_val = - 100, max_val = 100\<rparr>)
          radii_to_optimize)
     OptimizationProblem"

text \<open>
  \<^verbatim>\<open>create_optimization_problem\<close> of the second fisheye script
  (fisheye\_170\_optimizer\_v2.py, lines 125-182), with its literals
  \<^verbatim>\<open>field_angles_deg\<close>, \<^verbatim>\<open>max_angle\<close> and \<^verbatim>\<open>surfaces_to_optimize\<close>.
\<close>

definition field_angles_deg :: "real list" where
  "field_angles_deg = [0, 15, 30, 45, 60, 75, 85]"

definition max_angle_v2 :: real where
  "max_angle_v2 = 85.0"

definition normalized_fields_v2 :: "real list" where
  "normalized_fields_v2 = map (\<lambda>a. a / max_angle_v2) field_angles_deg"

definition surfaces_to_optimize :: "nat list" where
  "surfaces_to_optimize = [1, 2, 3, 4, 6, 7, 8, 9, 10, 11]"

definition create_optimization_problem_v2 :: "optic \<Rightarrow> optimization_problem" where
  "create_optimization_problem_v2 lens = statements
     (map (\<lambda>hy_norm. add_operand
             \<lparr>operand_type = ''rms_spot_size'', target = 0, weight = 1,
              op_input = \<lparr>surface_number = - 1, Hx = 0.0, Hy = hy_norm, num_rays = 31,
                          op_wavelength = 0.550, distribution = Some ''hexapolar''\<rparr>\<rparr>)
          normalized_fields_v2
      @ map (\<lambda>surf_idx. add_variable
             \<lparr>var_attribute = ''radius'', var_surface_number = surf_idx,
              min_val = - 100, max_val = 100\<rparr>)
          surfaces_to_optimize)
     OptimizationProblem"

text \<open>
  \<^verbatim>\<open>optimize_endoscope\<close> (simple\_endoscope\_4mm.py, lines 47-78): the problem the
  function has built when it hands it to the optimizer. The loop runs over the fields
  of the lens and divides each field angle by the literal 10.0.
\<close>

definition optimize_endoscope_problem :: "optic \<Rightarrow> optimization_problem" where
  "optimize_endoscope_problem lens = statements
     ([add_variable \<lparr>var_attribute = ''radius'', var_surface_number = 1,
                      min_val = 5.0, max_val = 15.0\<rparr>,
       add_variable \<lparr>var_attribute = ''radius'', var_surface_number = 2,
                      min_val = - 20.0, max_val = - 5.0\<rparr>,
       add_variable \<lparr>var_attribute = ''radius'', var_surface_number = 4,
                      min_val = - 10.0, max_val = - 2.0\<rparr>,
       add_variable \<lparr>var_attribute = ''radius'', var_surface_number = 5,
                      min_val = 5.0, max_val = 20.0\<rparr>,
       add_variable \<lparr>var_attribute = ''radius'', var_surface_number = 6,
                      min_val = 2.0, max_val = 10.0\<rparr>,
       add_variable \<lparr>var_attribute = ''radius'', var_surface_number = 7,
                      min_val = - 15.0, max_val = - 3.0\<rparr>]
      @ map (\<lambda>field_angle. add_operand
             \<lparr>operand_type = ''rms_spot_size'', target = 0.0, weight = 1,
              op_input = \<lparr>surface_number = int (length (surfaces lens)) - 1, Hx = 0.0,
                          Hy = field_angle / 10.0, num_rays = 31,
                          op_wavelength = 0.588, distribution = None\<rparr>\<rparr>)
          (fields_y lens))
     OptimizationProblem"


section \<open>The main function of the realistic solar concentrator script\<close>

text \<open>
  \<^verbatim>\<open>class RealisticSolarConcentrator(optic.Optic)\<close>
  (realistic\_fresnel\_solar\_concentrator.py, lines 29-206). The class body holds
  three \<^verbatim>\<open>def\<close> statements; the statements after the \<^verbatim>\<open>return\<close> of
  \<^verbatim>\<open>analyze_power_density_vs_distance\<close> (lines 164-206) are part of that
  method's body and define nothing. \<^verbatim>\<open>__init__\<close> assigns four attributes of the
  instance.
\<close>

definition RealisticSolarConcentrator_methods :: "string list" where
  "RealisticSolarConcentrator_methods =
     [''__init__'', ''_calculate_fresnel_radius'', ''analyze_power_density_vs_distance'']"

definition RealisticSolarConcentrator_instance_attributes :: "string list" where
  "RealisticSolarConcentrator_instance_attributes =
     [''name'', ''diameter'', ''target_concentration'', ''focal_length'']"

text \<open>
  Attribute lookup \<^verbatim>\<open>lens.a\<close> on an instance: the instance, then the class, then
  the base class \<^verbatim>\<open>optic.Optic\<close>, whose attribute names are the parameter
  \<open>base\<close> (the base class is part of the optical library).
\<close>

definition has_attribute :: "string list \<Rightarrow> string \<Rightarrow> bool" where
  "has_attribute base a =
     (a \<in> set RealisticSolarConcentrator_instance_attributes
      \<or> a \<in> set RealisticSolarConcentrator_methods
      \<or> a \<in> set base)"

text \<open>
  Modelled from the spec: the attribute names of \<^verbatim>\<open>optic.Optic\<close> that the
  scripts use, which are the construction, trace and paraxial interfaces of section
  6 of the specification.
\<close>

definition Optic_attributes :: "string list" where
  "Optic_attributes =
     [''name'', ''surface_group'', ''fields'', ''wavelengths'', ''paraxial'',
      ''add_surface'', ''set_aperture'', ''set_field_type'', ''add_field'',
      ''add_wavelength'', ''draw'', ''trace'']"

text \<open>
  The steps of \<^verbatim>\<open>main\<close> that matter for its control flow, as events: the
  results directory, the construction of a lens for a concentration target, the quick
  performance check that follows a successful call of
  \<^verbatim>\<open>lens.get_realistic_concentration()\<close> (line 518), the detailed analysis of
  the middle option (line 527) and the report file (lines 615-617).
\<close>

datatype event =
    MakeResultsDir
  | CreateLens real
  | PerformanceCheck real
  | DetailedAnalysis real
  | WriteReport

text \<open>
  The loop \<^verbatim>\<open>for i, target_conc in enumerate(target_concentrations)\<close> of
  \<^verbatim>\<open>main\<close> (lines 504-619). The loop body is outside any \<^verbatim>\<open>try\<close>, so an
  exception ends \<^verbatim>\<open>main\<close>. When the call of line 518 resolves, its result is
  taken to support the subscripts the script applies to it; the detailed analysis of
  the middle option (\<^verbatim>\<open>analyze_realistic_concentrator\<close>, lines 209-480) then
  reads the name \<^verbatim>\<open>detailed_results\<close> at line 465, outside any \<^verbatim>\<open>try\<close>,
  which is bound in \<^verbatim>\<open>main\<close> only, so it raises \<^verbatim>\<open>NameError\<close> before it
  returns. The result is the trace of events and the exception that ended the run,
  if any.
\<close>

fun design_options ::
  "string list \<Rightarrow> nat \<Rightarrow> real list \<Rightarrow> event list \<Rightarrow> event list \<times> py_exception option" where
  "design_options base i [] ev = (ev, None)"
| "design_options base i (target_conc # rest) ev =
     (let ev1 = ev @ [CreateLens target_conc] in
      if \<not> has_attribute base ''get_realistic_concentration''
      then (ev1, Some (AttributeError ''RealisticSolarConcentrator''
                         ''get_realistic_concentration''))
      else
        let ev2 = ev1 @ [PerformanceCheck target_conc] in
        if i = 1
        then (ev2 @ [DetailedAnalysis target_conc], Some (NameError ''detailed_results''))
        else design_options base (Suc i) rest ev2)"

text \<open>
  \<^verbatim>\<open>main\<close> (lines 483-631). \<open>makedirs_ok\<close> says whether
  \<^verbatim>\<open>os.makedirs(results_dir, exist_ok=True)\<close> succeeds.
\<close>

definition target_concentrations :: "real list" where
  "target_concentrations = [5.0, 10.0, 25.0]"

definition solar_concentrator_main :: "bool \<Rightarrow> string list \<Rightarrow> event list \<times> py_exception option" where
  "solar_concentrator_main makedirs_ok base =
     (if \<not> makedirs_ok then ([], Some OSError)
      else design_options base 0 target_concentrations [MakeResultsDir])"

section \<open>Conversion between the lens and the AutoLens dictionary\<close>

text \<open>
  The dictionary format of optiland\_autolens\_integration.py. A radius or thickness
  entry is a float or the string \<^verbatim>\<open>"infinity"\<close>; other strings are not part of the
  format. An entry the reading code fetches with \<^verbatim>\<open>.get\<close> may be absent
  (\<open>None\<close>).
\<close>

datatype jnum = JFloat pyfloat | JInfinity

record surface_data =
  sd_index :: nat
  sd_radius :: jnum
  sd_thickness :: jnum
  sd_material :: "string option"
  sd_conic :: "real option"

record autolens_data =
  lens_name :: "string option option"
  ad_surfaces :: "surface_data list"
  ad_fields :: "real list"
  ad_wavelengths :: "real list"
  ad_aperture :: aperture_setting

text \<open>
  What \<^verbatim>\<open>optiland_to_autolens\<close> asks of the library, whose objects are not part
  of the scripts: the attributes \<^verbatim>\<open>radius\<close>, \<^verbatim>\<open>thickness\<close>,
  \<^verbatim>\<open>material\<close> and \<^verbatim>\<open>conic\<close> of a surface object, and the expression
  \<^verbatim>\<open>optiland_lens.surface_group.aperture_surface().aperture_radius\<close>. Each read
  is \<open>None\<close> when the attribute is absent or the expression raises; a material
  read that succeeds is \<open>Some None\<close> for a surface without material and
  \<open>Some (Some m)\<close> for the material named \<open>m\<close>.
\<close>

record library_reads =
  read_radius :: "surface \<Rightarrow> pyfloat option"
  read_thickness :: "surface \<Rightarrow> pyfloat option"
  read_material :: "surface \<Rightarrow> string option option"
  read_conic :: "surface \<Rightarrow> real option"
  aperture_radius :: "optic \<Rightarrow> real option"

text \<open>
  \<^verbatim>\<open>float(x) if hasattr(surface, ...) and x != np.inf else "infinity"\<close> inside
  \<^verbatim>\<open>try\<close>, with \<^verbatim>\<open>"infinity"\<close> in the \<^verbatim>\<open>except\<close> branch (lines 120-128):
  a read that fails and the value \<^verbatim>\<open>np.inf\<close> both give \<^verbatim>\<open>"infinity"\<close>.
\<close>

definition to_jnum :: "pyfloat option \<Rightarrow> jnum" where
  "to_jnum r =
     (case r of
        None \<Rightarrow> JInfinity
      | Some x \<Rightarrow> if x \<noteq> PosInf then JFloat x else JInfinity)"

text \<open>
  \<^verbatim>\<open>surface.material.name if surface.material else "air"\<close> inside \<^verbatim>\<open>try\<close>,
  with \<^verbatim>\<open>"air"\<close> in the \<^verbatim>\<open>except\<close> branch (lines 130-133).
\<close>

definition material_name :: "string option option \<Rightarrow> string" where
  "material_name m =
     (case m of
        None \<Rightarrow> ''air''
      | Some None \<Rightarrow> ''air''
      | Some (Some n) \<Rightarrow> n)"

text \<open>
  The loop over the surfaces of \<^verbatim>\<open>optiland_to_autolens\<close> (lines 115-142), with
  the running index \<open>i\<close>. \<^verbatim>\<open>getattr(surface, 'conic', 0.0)\<close> gives 0.0 when the
  attribute is absent. The stop flag is not written.
\<close>

fun surfaces_to_data :: "library_reads \<Rightarrow> nat \<Rightarrow> surface list \<Rightarrow> surface_data list" where
  "surfaces_to_data lib i [] = []"
| "surfaces_to_data lib i (s # ss) =
     \<lparr>sd_index = i,
      sd_radius = to_jnum (read_radius lib s),
      sd_thickness = to_jnum (read_thickness lib s),
      sd_material = Some (material_name (read_material lib s)),
      sd_conic = Some (case read_conic lib s of Some c \<Rightarrow> c | None \<Rightarrow> 0.0)\<rparr>
     # surfaces_to_data lib (Suc i) ss"

text \<open>
  \<^verbatim>\<open>optiland_to_autolens\<close> (lines 109-171). When the aperture expression raises,
  the \<^verbatim>\<open>except\<close> branch takes 1200.0. The aperture of the lens itself is not
  read.
\<close>

definition optiland_to_autolens :: "library_reads \<Rightarrow> optic \<Rightarrow> autolens_data" where
  "optiland_to_autolens lib optiland_lens =
     \<lparr>lens_name = Some (name optiland_lens),
      ad_surfaces = surfaces_to_data lib 0 (surfaces optiland_lens),
      ad_fields = fields_y optiland_lens,
      ad_wavelengths = map wl_value (wavelengths optiland_lens),
      ad_aperture = \<lparr>ap_type = EPD,
                      ap_value = (case aperture_radius lib optiland_lens of
                                    Some r \<Rightarrow> r * 2 | None \<Rightarrow> 1200.0)\<rparr>\<rparr>"

text \<open>\<^verbatim>\<open>if radius == "infinity": radius = np.inf\<close> (lines 184-190).\<close>

fun of_jnum :: "jnum \<Rightarrow> pyfloat" where
  "of_jnum JInfinity = PosInf"
| "of_jnum (JFloat x) = x"

text \<open>
  The surface \<^verbatim>\<open>autolens_to_optiland\<close> adds for one entry (lines 183-202);
  \<^verbatim>\<open>is_stop\<close> is not passed.
\<close>

definition surface_of_data :: "surface_data \<Rightarrow> surface" where
  "surface_of_data sd = default_surface
     \<lparr>radius := of_jnum (sd_radius sd),
      thickness := of_jnum (sd_thickness sd),
      material := (case sd_material sd of
                     None \<Rightarrow> None
                   | Some m \<Rightarrow> if m = ''air'' then None else Some m),
      conic := (case sd_conic sd of None \<Rightarrow> 0.0 | Some c \<Rightarrow> c)\<rparr>"

text \<open>
  The loop \<^verbatim>\<open>for i, wavelength in enumerate(autolens_data["wavelengths"])\<close> with
  \<^verbatim>\<open>is_primary = (i == 1)\<close> (lines 217-219).
\<close>

fun add_wavelengths :: "nat \<Rightarrow> real list \<Rightarrow> optic \<Rightarrow> optic" where
  "add_wavelengths i [] lens = lens"
| "add_wavelengths i (w # ws) lens = add_wavelengths (Suc i) ws (add_wavelength w (i = 1) lens)"

text \<open>\<^verbatim>\<open>autolens_to_optiland\<close> (lines 173-221).\<close>

definition autolens_to_optiland :: "autolens_data \<Rightarrow> optic" where
  "autolens_to_optiland d =
     (let lens = (Optic None)\<lparr>name := (case lens_name d of
                                          None \<Rightarrow> Some ''AutoLens_Import''
                                        | Some n \<Rightarrow> n)\<rparr>;
          lens = foldl (\<lambda>l sd. add_surface (sd_index sd) (surface_of_data sd) l)
                   lens (ad_surfaces d);
          lens = set_aperture (ap_type (ad_aperture d)) (ap_value (ad_aperture d)) lens;
          lens = set_field_type angle lens;
          lens = foldl (\<lambda>l field_y. add_field field_y l) lens (ad_fields d)
      in add_wavelengths 0 (ad_wavelengths d) lens)"

text \<open>
  \<^verbatim>\<open>geolens_to_dict\<close> (lines 294-316): the first \<^verbatim>\<open>return\<close> ends the function;
  the second copy of the body after it is never run. The argument is not read.
\<close>

definition geolens_to_dict :: "'g \<Rightarrow> autolens_data" where
  "geolens_to_dict geo_lens =
     \<lparr>lens_name = Some (Some ''AutoLens_Optimized''),
      ad_surfaces = [],
      ad_fields = [0.0, 0.25],
      ad_wavelengths = [0.486, 0.587, 0.656],
      ad_aperture = \<lparr>ap_type = EPD, ap_value = 1200\<rparr>\<rparr>"

text \<open>
  What \<^verbatim>\<open>run_autolens_optimization\<close> takes from its surroundings: the module
  flag \<^verbatim>\<open>AUTOLENS_AVAILABLE\<close>; whether writing the initial design to its JSON
  file succeeds; the class \<^verbatim>\<open>GeoLens\<close> of the AutoLens library, which loads that
  file (\<open>None\<close> when it raises); and its method \<^verbatim>\<open>analysis\<close>, which may change
  the object (\<open>None\<close> when it raises).
\<close>

record 'g autolens_env =
  AUTOLENS_AVAILABLE :: bool
  save_initial_design :: "autolens_data \<Rightarrow> bool"
  GeoLens :: "autolens_data \<Rightarrow> 'g option"
  analysis :: "'g \<Rightarrow> 'g option"

text \<open>
  \<^verbatim>\<open>run_autolens_optimization\<close> (lines 223-262). The file is written before the
  \<^verbatim>\<open>try\<close>, so a failure there leaves the function as an exception; every
  exception inside the \<^verbatim>\<open>try\<close> is caught and turned into \<^verbatim>\<open>None\<close>.
\<close>

definition run_autolens_optimization ::
  "'g autolens_env \<Rightarrow> autolens_data \<Rightarrow> (string \<times> real) list \<Rightarrow> py_exception + autolens_data option" where
  "run_autolens_optimization env initial_spec target_specs =
     (if \<not> AUTOLENS_AVAILABLE env then Inr None
      else if \<not> save_initial_design env initial_spec then Inl OSError
      else case GeoLens env initial_spec of
             None \<Rightarrow> Inr None
           | Some lens \<Rightarrow>
               (case analysis env lens of
                  None \<Rightarrow> Inr None
                | Some lens' \<Rightarrow> Inr (Some (geolens_to_dict lens'))))"

section \<open>Paraxial focal length\<close>

text \<open>
  Modelled from the spec: the paraxial analyzer (\<^verbatim>\<open>lens.paraxial.f2()\<close>) and the
  glass catalog belong to the optical library. Section 4.2 of the specification
  gives the computation: one ray at near-zero height is traced with linearized
  refraction, the power of a surface being \<open>(n' - n) / R\<close>, accumulated by the
  paraxial ray-transfer recursion; the query fails with \<open>DegenerateSystem\<close> when the
  accumulated power is zero. Section 4.1 names \<open>MalformedSequence\<close> for a sequence
  of fewer than two surfaces or more than one stop.
\<close>

datatype optics_error = MalformedSequence | DegenerateSystem | UnknownMaterial

text \<open>
  Modelled from the spec: the catalog entry the scripts rely on, N-BK7 with index
  1.517 (the constant \<^verbatim>\<open>n_bk7\<close> of the scripts); no medium is air, of index 1.
\<close>

definition glass_catalog :: "string \<Rightarrow> real option" where
  "glass_catalog m = (if m = ''N-BK7'' then Some n_bk7 else None)"

definition refractive_index :: "(string \<Rightarrow> real option) \<Rightarrow> string option \<Rightarrow> optics_error + real" where
  "refractive_index catalog mat =
     (case mat of
        None \<Rightarrow> Inr 1
      | Some m \<Rightarrow> (case catalog m of
                    None \<Rightarrow> Inl UnknownMaterial
                  | Some n \<Rightarrow> if n = 0 then Inl UnknownMaterial else Inr n))"

text \<open>Modelled from the spec: the curvature \<open>1 / R\<close> of a surface, 0 when it is flat.\<close>

definition curvature :: "pyfloat \<Rightarrow> optics_error + real" where
  "curvature r =
     (case r of
        Fin x \<Rightarrow> if x = 0 then Inl MalformedSequence else Inr (1 / x)
      | PosInf \<Rightarrow> Inr 0
      | NegInf \<Rightarrow> Inr 0)"

text \<open>
  Modelled from the spec: the ray-transfer recursion over the surfaces after the
  object surface. The state is the index \<open>n\<close> of the medium before the surface, the
  ray height \<open>y\<close> at the surface and the ray angle \<open>u\<close> before it. Refraction:
  \<open>n' u' = n u - y (n' - n) / R\<close>; transfer to the next surface:
  \<open>y' = y + t u'\<close>. The result is the height and angle after the last surface.
\<close>

fun paraxial_trace ::
  "(string \<Rightarrow> real option) \<Rightarrow> real \<Rightarrow> real \<Rightarrow> real \<Rightarrow> surface list \<Rightarrow> optics_error + real \<times> real" where
  "paraxial_trace catalog n y u [] = Inr (y, u)"
| "paraxial_trace catalog n y u (s # ss) =
     (case refractive_index catalog (material s) of
        Inl e \<Rightarrow> Inl e
      | Inr n' \<Rightarrow>
          (case curvature (radius s) of
             Inl e \<Rightarrow> Inl e
           | Inr c \<Rightarrow>
               (let power = (n' - n) * c;
                    u' = (n * u - y * power) / n'
                in if ss = [] then Inr (y, u')
                   else (case thickness s of
                           Fin t \<Rightarrow> paraxial_trace catalog n' (y + t * u') u' ss
                         | PosInf \<Rightarrow> Inl MalformedSequence
                         | NegInf \<Rightarrow> Inl MalformedSequence))))"

text \<open>
  Modelled from the spec: \<open>effective_focal_length\<close>. A ray parallel to the axis
  (\<open>u = 0\<close>) at height 1 enters after the object surface; the focal length is minus
  the entrance height over the exit angle.
\<close>

definition effective_focal_length :: "(string \<Rightarrow> real option) \<Rightarrow> optic \<Rightarrow> optics_error + real" where
  "effective_focal_length catalog lens =
     (if length (surfaces lens) < 2 \<or> 1 < num_stops lens then Inl MalformedSequence
      else case refractive_index catalog (material (hd (surfaces lens))) of
             Inl e \<Rightarrow> Inl e
           | Inr n0 \<Rightarrow>
               (case paraxial_trace catalog n0 1 0 (tl (surfaces lens)) of
                  Inl e \<Rightarrow> Inl e
                | Inr (y, u) \<Rightarrow> if u = 0 then Inl DegenerateSystem else Inr (- 1 / u)))"

text \<open>
  Modelled from the spec: the prescription of the end-to-end scenario of section 8,
  a plano-convex lens of radius 653.245, thickness 8, index 1.517, with a back gap of
  1265 to the image. It is the lens of \<open>create_realistic_fresnel_lens\<close> with a flat
  second surface.
\<close>

definition plano_convex_scenario :: optic where
  "plano_convex_scenario = statements
     [add_surface 0 (default_surface\<lparr>thickness := PosInf\<rparr>),
      add_surface 1 (default_surface\<lparr>thickness := Fin 8, radius := Fin 653.245,
                       is_stop := True, material := Some ''N-BK7''\<rparr>),
      add_surface 2 (default_surface\<lparr>thickness := Fin 1265, radius := PosInf\<rparr>),
      add_surface 3 default_surface]
     (Optic None)"

text \<open>A value lies within one percent of the expected value.\<close>

definition within_one_percent :: "real \<Rightarrow> real \<Rightarrow> bool" where
  "within_one_percent expected x = (\<bar>x - expected\<bar> \<le> 0.01 * \<bar>expected\<bar>)"

text \<open>
  A library that answers every attribute read of \<^verbatim>\<open>optiland_to_autolens\<close> with
  the value the surface has, and raises on the aperture expression.
\<close>

definition attributes_exposed :: library_reads where
  "attributes_exposed =
     \<lparr>read_radius = (\<lambda>s. Some (radius s)),
      read_thickness = (\<lambda>s. Some (thickness s)),
      read_material = (\<lambda>s. Some (material s)),
      read_conic = (\<lambda>s. Some (conic s)),
      aperture_radius = (\<lambda>lens. None)\<rparr>"

text \<open>
  The reads of a library succeed on a surface: each of the four attribute reads
  gives the value the surface has.
\<close>

definition reads_succeed :: "library_reads \<Rightarrow> surface \<Rightarrow> bool" where
  "reads_succeed lib s =
     (read_radius lib s = Some (radius s)
      \<and> read_thickness lib s = Some (thickness s)
      \<and> read_material lib s = Some (material s)
      \<and> read_conic lib s = Some (conic s))"

text \<open>
  A dictionary in the format of \<^verbatim>\<open>geolens_to_dict\<close> with a single wavelength.
\<close>

definition single_wavelength_spec :: autolens_data where
  "single_wavelength_spec =
     \<lparr>lens_name = Some (Some ''AutoLens_Optimized''), ad_surfaces = [],
      ad_fields = [0.0, 0.25], ad_wavelengths = [0.587],
      ad_aperture = \<lparr>ap_type = EPD, ap_value = 1200\<rparr>\<rparr>"

text \<open>
  A dictionary in the format of \<^verbatim>\<open>geolens_to_dict\<close> with an empty wavelength
  list.
\<close>

definition no_wavelength_spec :: autolens_data where
  "no_wavelength_spec =
     \<lparr>lens_name = Some (Some ''AutoLens_Optimized''), ad_surfaces = [],
      ad_fields = [0.0, 0.25], ad_wavelengths = [],
      ad_aperture = \<lparr>ap_type = EPD, ap_value = 1200\<rparr>\<rparr>"


text \<open>
  A lens of the data model whose aperture is given as an image-space F-number:
  the endoscope with \<^verbatim>\<open>set_aperture(aperture_type='imageFNO', value=4)\<close>.
\<close>

definition endoscope_with_f_number :: optic where
  "endoscope_with_f_number = set_aperture imageFNO 4 SimpleEndoscope"

section \<open>Declared variables and the lens they refer to\<close>

text \<open>
  The value of a variable in a lens: the attribute is the radius of the surface the
  variable names (every variable of the scripts is a radius); \<open>None\<close> when the lens
  has no such surface.
\<close>

definition variable_value :: "optic \<Rightarrow> variable \<Rightarrow> pyfloat option" where
  "variable_value lens v =
     (if var_surface_number v < length (surfaces lens)
      then Some (radius (surfaces lens ! var_surface_number v)) else None)"

text \<open>
  A variable is well declared for a lens when its lower bound is below its upper
  bound and the current value is a finite number inside the bounds, both ends
  included.
\<close>

definition well_declared :: "optic \<Rightarrow> variable \<Rightarrow> bool" where
  "well_declared lens v =
     (min_val v < max_val v
      \<and> (case variable_value lens v of
            Some (Fin x) \<Rightarrow> min_val v \<le> x \<and> x \<le> max_val v
          | Some PosInf \<Rightarrow> False
          | Some NegInf \<Rightarrow> False
          | None \<Rightarrow> False))"

section \<open>Theorems\<close>

subsection \<open>C1: two conventions for the radius\<close>

text \<open>
  Claim C1. For every focal length \<open>f\<close> and the fixed index 1.517, the 1.5m script
  returns \<open>2 * f * (n - 1)\<close>, the 1.2m script and the power-analysis script return
  \<open>f * (n - 1)\<close>, so the 1.5m radius is exactly twice the other one; at the 1.5m
  script's own focal length 750 the two conventions give 775.5 and 387.75.
\<close>

theorem fresnel_radius_conventions:
  "LargeFresnelConcentrator_calculate_fresnel_radius f = 2 * f * (1.517 - 1)
   \<and> OptimizedFresnelConcentrator_calculate_fresnel_radius f = f * (1.517 - 1)
   \<and> RealisticFresnelConcentrator_fresnel_radius f = f * (1.517 - 1)
   \<and> LargeFresnelConcentrator_calculate_fresnel_radius f
       = 2 * OptimizedFresnelConcentrator_calculate_fresnel_radius f
   \<and> LargeFresnelConcentrator_calculate_fresnel_radius f
       = 2 * RealisticFresnelConcentrator_fresnel_radius f
   \<and> LargeFresnelConcentrator_calculate_fresnel_radius LargeFresnelConcentrator_focal_length
       = 775.5
   \<and> OptimizedFresnelConcentrator_calculate_fresnel_radius LargeFresnelConcentrator_focal_length
       = 387.75"
  by (simp add: LargeFresnelConcentrator_calculate_fresnel_radius_def
      OptimizedFresnelConcentrator_calculate_fresnel_radius_def
      RealisticFresnelConcentrator_fresnel_radius_def n_bk7_def
      LargeFresnelConcentrator_focal_length_def)

subsection \<open>C8: normalized field coordinates of the operands\<close>



lemma fields_SimpleEndoscope:
  "fields_y SimpleEndoscope = [0, 5, 10]"
  by (simp add: SimpleEndoscope_def statements_def add_field_def add_wavelength_def
      set_field_type_def set_aperture_def add_surface_def Optic_def)







subsection \<open>The operands of the fisheye setups\<close>

text \<open>
  Each \<^verbatim>\<open>create_optimization_problem\<close> adds seven operands, whatever lens it is
  given: each of type \<^verbatim>\<open>rms_spot_size\<close> with target 0 and weight 1, on the image
  surface, with 31 rays in the hexapolar distribution at wavelength 0.550. No
  operand asks for a random distribution, and nothing in the operands comes from the
  clock.
\<close>

lemma create_optimization_problem_operands:
  "map (\<lambda>p. (operand_type p, target p, weight p, surface_number (op_input p), Hx (op_input p),
              num_rays (op_input p), op_wavelength (op_input p), distribution (op_input p)))
       (operands (create_optimization_problem lens))
     = replicate 7 (''rms_spot_size'', 0, 1, - 1, 0, 31, 0.550, Some ''hexapolar'')
   \<and> map (\<lambda>p. (operand_type p, target p, weight p, surface_number (op_input p), Hx (op_input p),
              num_rays (op_input p), op_wavelength (op_input p), distribution (op_input p)))
       (operands (create_optimization_problem_v2 lens))
     = replicate 7 (''rms_spot_size'', 0, 1, - 1, 0, 31, 0.550, Some ''hexapolar'')"
  by (simp add: create_optimization_problem_def create_optimization_problem_v2_def
      statements_def normalized_fields_def normalized_fields_v2_def
      field_angles_def field_angles_deg_def max_angle_def max_angle_v2_def
      radii_to_optimize_def surfaces_to_optimize_def add_operand_def add_variable_def
      OptimizationProblem_def numeral_eq_Suc)

subsection \<open>The variables the setups hand to the optimizer\<close>

text \<open>
  The setups declare every variable with a lower bound below its upper bound, on a
  surface of the lens, and the radius the lens class gives that surface lies inside
  the bounds: the search starts from a point of the bounded space. What the optimizer
  of the library does from there is not part of the scripts.
\<close>

lemma radii_WideAngleFisheyeLens:
  "map radius (surfaces WideAngleFisheyeLens) =
     [PosInf, Fin (- 25), Fin (- 40), Fin (- 20), Fin (- 30), PosInf, Fin 15, Fin (- 12),
      Fin 18, Fin (- 14), Fin 16, Fin (- 18), PosInf]"
  by (simp add: WideAngleFisheyeLens_def statements_def add_surface_def
        add_wavelength_def add_field_def set_field_type_def set_aperture_def Optic_def
        default_surface_def)

lemma radii_WideAngleFisheyeLens_v2:
  "map radius (surfaces WideAngleFisheyeLens_v2) =
     [PosInf, Fin (- 25), Fin (- 40), Fin (- 20), Fin (- 30), PosInf, Fin 18, Fin (- 25),
      Fin 22, Fin (- 18), Fin 20, Fin (- 16), PosInf]"
  by (simp add: WideAngleFisheyeLens_v2_def statements_def add_surface_def
        add_wavelength_def add_field_def set_field_type_def set_aperture_def Optic_def
        default_surface_def)

lemma radii_SimpleEndoscope:
  "map radius (surfaces SimpleEndoscope) =
     [PosInf, Fin 8, Fin (- 12), PosInf, Fin (- 6), Fin 10, Fin 5, Fin (- 8), PosInf]"
  by (simp add: SimpleEndoscope_def statements_def add_surface_def
        add_wavelength_def add_field_def set_field_type_def set_aperture_def Optic_def
        default_surface_def)

lemma variable_value_map:
  "variable_value lens v =
     (if var_surface_number v < length (map radius (surfaces lens))
      then Some (map radius (surfaces lens) ! var_surface_number v) else None)"
  by (simp add: variable_value_def)

text \<open>
  The ten variables of each fisheye setup and the six of the endoscope setup are
  well declared for the lens of their script.
\<close>

lemma declared_variables_start_within_bounds:
  "list_all (well_declared WideAngleFisheyeLens)
     (variables (create_optimization_problem WideAngleFisheyeLens))
   \<and> length (variables (create_optimization_problem WideAngleFisheyeLens)) = 10
   \<and> list_all (well_declared WideAngleFisheyeLens_v2)
     (variables (create_optimization_problem_v2 WideAngleFisheyeLens_v2))
   \<and> length (variables (create_optimization_problem_v2 WideAngleFisheyeLens_v2)) = 10
   \<and> list_all (well_declared SimpleEndoscope)
     (variables (optimize_endoscope_problem SimpleEndoscope))
   \<and> length (variables (optimize_endoscope_problem SimpleEndoscope)) = 6"
  by (simp add: create_optimization_problem_def create_optimization_problem_v2_def
      optimize_endoscope_problem_def statements_def
      normalized_fields_def normalized_fields_v2_def field_angles_def field_angles_deg_def
      radii_to_optimize_def surfaces_to_optimize_def add_operand_def
      add_variable_def OptimizationProblem_def well_declared_def variable_value_map
      radii_WideAngleFisheyeLens radii_WideAngleFisheyeLens_v2 radii_SimpleEndoscope
      fields_SimpleEndoscope)

subsection \<open>C9: the main function of the solar concentrator script\<close>

text \<open>
  When the call resolves (here through a base class that offers the method),
  \<^verbatim>\<open>main\<close> gets as far as the detailed analysis of the middle option, which
  raises \<^verbatim>\<open>NameError\<close>; the report is not written in this run either.
\<close>

lemma solar_concentrator_main_with_method:
  "solar_concentrator_main True [''get_realistic_concentration'']
     = ([MakeResultsDir, CreateLens 5, PerformanceCheck 5, CreateLens 10, PerformanceCheck 10,
         DetailedAnalysis 10], Some (NameError ''detailed_results''))"
  by (simp add: has_attribute_def solar_concentrator_main_def target_concentrations_def)

text \<open>
  Claim C9. The class \<^verbatim>\<open>RealisticSolarConcentrator\<close> defines no method
  \<^verbatim>\<open>get_realistic_concentration\<close>; so, when the base class does not offer it
  either, every run of \<^verbatim>\<open>main\<close> ends with an exception, and a run that gets past
  the results directory raises \<^verbatim>\<open>AttributeError\<close> at the first call, after the
  first lens was built: no performance check, no detailed analysis and no report.
\<close>

theorem solar_concentrator_main_raises:
  assumes "''get_realistic_concentration'' \<notin> set base"
  shows "''get_realistic_concentration'' \<notin> set RealisticSolarConcentrator_methods
    \<and> \<not> has_attribute base ''get_realistic_concentration''
    \<and> solar_concentrator_main True base
        = ([MakeResultsDir, CreateLens 5],
           Some (AttributeError ''RealisticSolarConcentrator'' ''get_realistic_concentration''))
    \<and> (\<forall>ok. snd (solar_concentrator_main ok base) \<noteq> None
           \<and> PerformanceCheck 5 \<notin> set (fst (solar_concentrator_main ok base))
           \<and> DetailedAnalysis 10 \<notin> set (fst (solar_concentrator_main ok base))
           \<and> WriteReport \<notin> set (fst (solar_concentrator_main ok base)))"
  using assms
  by (simp add: has_attribute_def RealisticSolarConcentrator_methods_def
      RealisticSolarConcentrator_instance_attributes_def solar_concentrator_main_def
      target_concentrations_def)

text \<open>
  Witness for C9: the attribute names of \<^verbatim>\<open>optic.Optic\<close> do not contain the
  method, and \<^verbatim>\<open>main\<close> raises at the first call.
\<close>

theorem solar_concentrator_main_raises_witness:
  "''get_realistic_concentration'' \<notin> set Optic_attributes
   \<and> solar_concentrator_main True Optic_attributes
        = ([MakeResultsDir, CreateLens 5],
           Some (AttributeError ''RealisticSolarConcentrator'' ''get_realistic_concentration''))"
proof -
  have h: "''get_realistic_concentration'' \<notin> set Optic_attributes"
    by (simp add: Optic_attributes_def)
  from solar_concentrator_main_raises [OF h] h show ?thesis by simp
qed

subsection \<open>C10: the dictionary returned for an optimized lens\<close>

text \<open>
  Claim C10. \<^verbatim>\<open>geolens_to_dict\<close> returns the same placeholder dictionary for
  every argument, so whatever \<^verbatim>\<open>run_autolens_optimization\<close> returns as a
  specification is that placeholder: its result is an exception from writing the
  file, \<^verbatim>\<open>None\<close>, or the placeholder, whatever the AutoLens library loaded and
  computed.
\<close>

theorem geolens_to_dict_is_constant:
  "geolens_to_dict g =
     \<lparr>lens_name = Some (Some ''AutoLens_Optimized''), ad_surfaces = [],
      ad_fields = [0, 0.25], ad_wavelengths = [0.486, 0.587, 0.656],
      ad_aperture = \<lparr>ap_type = EPD, ap_value = 1200\<rparr>\<rparr>
   \<and> geolens_to_dict g = geolens_to_dict g'
   \<and> (run_autolens_optimization env initial_spec target_specs = Inl OSError
      \<or> run_autolens_optimization env initial_spec target_specs = Inr None
      \<or> run_autolens_optimization env initial_spec target_specs
          = Inr (Some \<lparr>lens_name = Some (Some ''AutoLens_Optimized''), ad_surfaces = [],
                       ad_fields = [0, 0.25], ad_wavelengths = [0.486, 0.587, 0.656],
                       ad_aperture = \<lparr>ap_type = EPD, ap_value = 1200\<rparr>\<rparr>))"
  by (simp add: geolens_to_dict_def run_autolens_optimization_def split: option.splits)

text \<open>
  The placeholder is reached: with the library available and every call succeeding,
  the function returns it.
\<close>

lemma run_autolens_optimization_returns_placeholder:
  "run_autolens_optimization
     \<lparr>AUTOLENS_AVAILABLE = True, save_initial_design = (\<lambda>d. True),
      GeoLens = (\<lambda>d. Some d), analysis = (\<lambda>g. Some g)\<rparr>
     single_wavelength_spec []
   = Inr (Some (geolens_to_dict ()))"
  by (simp add: run_autolens_optimization_def geolens_to_dict_def)

subsection \<open>Adding wavelengths keeps exactly one primary\<close>

lemma wl_value_add_wavelength:
  "map wl_value (wavelengths (add_wavelength v p l)) = map wl_value (wavelengths l) @ [v]"
  by (simp add: add_wavelength_def o_def)

lemma num_primary_add_wavelength:
  assumes "wavelengths l = [] \<or> num_primary l = 1"
  shows "num_primary (add_wavelength v p l) = 1"
proof (cases "wavelengths l = []")
  case True
  then show ?thesis by (simp add: add_wavelength_def num_primary_def)
next
  case False
  with assms have one: "length (filter is_primary (wavelengths l)) = 1"
    by (simp add: num_primary_def)
  have none: "filter is_primary (map (\<lambda>w. w\<lparr>is_primary := False\<rparr>) (wavelengths l)) = []"
    by (simp add: filter_map o_def)
  show ?thesis
  proof (cases p)
    case True
    with False none show ?thesis by (simp add: add_wavelength_def num_primary_def)
  next
    case np: False
    with False one show ?thesis by (simp add: add_wavelength_def num_primary_def)
  qed
qed

lemma wavelengths_add_wavelength_nonempty: "wavelengths (add_wavelength v p l) \<noteq> []"
  by (simp add: add_wavelength_def)

lemma add_wavelength_keeps:
  "name (add_wavelength v p l) = name l"
  "surfaces (add_wavelength v p l) = surfaces l"
  "aperture (add_wavelength v p l) = aperture l"
  "field_type (add_wavelength v p l) = field_type l"
  "fields_y (add_wavelength v p l) = fields_y l"
  by (simp_all add: add_wavelength_def)

lemma add_wavelengths_keeps:
  "name (add_wavelengths i ws l) = name l"
  "surfaces (add_wavelengths i ws l) = surfaces l"
  "aperture (add_wavelengths i ws l) = aperture l"
  "field_type (add_wavelengths i ws l) = field_type l"
  "fields_y (add_wavelengths i ws l) = fields_y l"
  by (induction ws arbitrary: i l; simp add: add_wavelength_keeps)+

lemma wl_value_add_wavelengths:
  "map wl_value (wavelengths (add_wavelengths i ws l)) = map wl_value (wavelengths l) @ ws"
  by (induction ws arbitrary: i l) (simp_all add: wl_value_add_wavelength)

lemma num_primary_add_wavelengths:
  assumes "wavelengths l = [] \<or> num_primary l = 1" and "ws \<noteq> []"
  shows "num_primary (add_wavelengths i ws l) = 1"
  using assms
proof (induction ws arbitrary: i l)
  case Nil
  then show ?case by simp
next
  case (Cons w ws)
  let ?l1 = "add_wavelength w (i = 1) l"
  have one: "num_primary ?l1 = 1"
    using Cons.prems(1) by (rule num_primary_add_wavelength)
  show ?case
  proof (cases "ws = []")
    case True
    with one show ?thesis by simp
  next
    case False
    have "num_primary (add_wavelengths (Suc i) ws ?l1) = 1"
      using one False by (intro Cons.IH) simp_all
    then show ?thesis by simp
  qed
qed

subsection \<open>The two conversions, and what a lens keeps on the way there and back\<close>

lemma of_jnum_to_jnum: "of_jnum (to_jnum r) = (case r of Some x \<Rightarrow> x | None \<Rightarrow> PosInf)"
  by (simp add: to_jnum_def split: option.splits)

lemma surface_of_data_to_data:
  "map surface_of_data (surfaces_to_data lib i ss)
     = map (\<lambda>s. \<lparr>radius = (case read_radius lib s of Some x \<Rightarrow> x | None \<Rightarrow> PosInf),
                  thickness = (case read_thickness lib s of Some x \<Rightarrow> x | None \<Rightarrow> PosInf),
                  material = (case read_material lib s of
                                Some (Some m) \<Rightarrow> if m = ''air'' then None else Some m
                              | Some None \<Rightarrow> None
                              | None \<Rightarrow> None),
                  is_stop = False,
                  conic = (case read_conic lib s of Some c \<Rightarrow> c | None \<Rightarrow> 0)\<rparr>) ss"
  by (induction ss arbitrary: i)
     (auto simp: surface_of_data_def default_surface_def of_jnum_to_jnum material_name_def
           split: option.splits)

lemma foldl_add_surface_append:
  "n = length (surfaces lens) \<Longrightarrow>
   foldl (\<lambda>l sd. add_surface (sd_index sd) (surface_of_data sd) l) lens
       (surfaces_to_data lib n ss)
     = lens\<lparr>surfaces := surfaces lens @ map surface_of_data (surfaces_to_data lib n ss)\<rparr>"
proof (induction ss arbitrary: lens n)
  case Nil
  then show ?case by simp
next
  case (Cons s ss)
  let ?F = "\<lambda>l sd. add_surface (sd_index sd) (surface_of_data sd) l"
  let ?sd = "hd (surfaces_to_data lib n (s # ss))"
  let ?l1 = "add_surface n (surface_of_data ?sd) lens"
  have len: "Suc n = length (surfaces ?l1)"
    using Cons.prems by (simp add: add_surface_def)
  have "foldl ?F lens (surfaces_to_data lib n (s # ss))
      = foldl ?F ?l1 (surfaces_to_data lib (Suc n) ss)"
    by simp
  also have "\<dots> = ?l1\<lparr>surfaces := surfaces ?l1
      @ map surface_of_data (surfaces_to_data lib (Suc n) ss)\<rparr>"
    using len by (rule Cons.IH)
  also have "\<dots> = lens\<lparr>surfaces := surfaces lens
      @ map surface_of_data (surfaces_to_data lib n (s # ss))\<rparr>"
    using Cons.prems by (simp add: add_surface_def)
  finally show ?case .
qed

lemma foldl_add_field:
  "foldl (\<lambda>l field_y. add_field field_y l) lens ys = lens\<lparr>fields_y := fields_y lens @ ys\<rparr>"
  by (induction ys arbitrary: lens) (simp_all add: add_field_def)

text \<open>
  The lens that comes back, before its wavelengths are added: name, fields and
  surfaces as the reads reported them, no stop, the aperture and field type the
  conversions write.
\<close>

lemma autolens_to_optiland_of_optiland_to_autolens:
  "autolens_to_optiland (optiland_to_autolens lib l) =
     add_wavelengths 0 (map wl_value (wavelengths l))
       \<lparr>name = name l,
        surfaces = map surface_of_data (surfaces_to_data lib 0 (surfaces l)),
        aperture = Some \<lparr>ap_type = EPD,
                         ap_value = (case aperture_radius lib l of
                                       Some r \<Rightarrow> r * 2 | None \<Rightarrow> 1200)\<rparr>,
        field_type = Some angle,
        fields_y = fields_y l,
        wavelengths = []\<rparr>"
proof -
  let ?l0 = "\<lparr>name = name l, surfaces = [], aperture = None, field_type = None,
     fields_y = [], wavelengths = []\<rparr>"
  have surf: "foldl (\<lambda>l sd. add_surface (sd_index sd) (surface_of_data sd) l) ?l0
       (surfaces_to_data lib 0 (surfaces l))
     = ?l0\<lparr>surfaces := map surface_of_data (surfaces_to_data lib 0 (surfaces l))\<rparr>"
    using foldl_add_surface_append [of 0 ?l0 lib "surfaces l"] by simp
  show ?thesis
    by (simp add: autolens_to_optiland_def optiland_to_autolens_def Let_def surf foldl_add_field
        set_aperture_def set_field_type_def Optic_def split: option.splits)
qed

lemma roundtrip_surfaces:
  "surfaces (autolens_to_optiland (optiland_to_autolens lib l))
     = map (\<lambda>s. \<lparr>radius = (case read_radius lib s of Some x \<Rightarrow> x | None \<Rightarrow> PosInf),
                  thickness = (case read_thickness lib s of Some x \<Rightarrow> x | None \<Rightarrow> PosInf),
                  material = (case read_material lib s of
                                Some (Some m) \<Rightarrow> if m = ''air'' then None else Some m
                              | Some None \<Rightarrow> None
                              | None \<Rightarrow> None),
                  is_stop = False,
                  conic = (case read_conic lib s of Some c \<Rightarrow> c | None \<Rightarrow> 0)\<rparr>) (surfaces l)"
  by (simp add: autolens_to_optiland_of_optiland_to_autolens add_wavelengths_keeps
      surface_of_data_to_data)

lemma wavelengths_foldl_add_surface:
  "wavelengths (foldl (\<lambda>l sd. add_surface (sd_index sd) (surface_of_data sd) l) lens sds)
     = wavelengths lens"
  by (induction sds arbitrary: lens) (simp_all add: add_surface_def)

lemma num_stops_autolens_to_optiland: "num_stops (autolens_to_optiland d) = 0"
proof -
  have ns: "\<not> is_stop (surface_of_data sd)" for sd
    by (simp add: surface_of_data_def default_surface_def)
  have step: "filter is_stop (surfaces (add_surface i s lens)) = filter is_stop (surfaces lens)"
    if "\<not> is_stop s" for i s lens
  proof -
    have "filter is_stop (take i (surfaces lens) @ s # drop i (surfaces lens))
        = filter is_stop (take i (surfaces lens)) @ filter is_stop (drop i (surfaces lens))"
      using that by simp
    also have "\<dots> = filter is_stop (take i (surfaces lens) @ drop i (surfaces lens))"
      by (simp only: filter_append)
    also have "\<dots> = filter is_stop (surfaces lens)"
      by (simp only: append_take_drop_id)
    finally show ?thesis by (simp add: add_surface_def)
  qed
  have fold: "filter is_stop (surfaces (foldl (\<lambda>l sd. add_surface (sd_index sd)
       (surface_of_data sd) l) lens sds)) = filter is_stop (surfaces lens)" for lens sds
    by (induction sds arbitrary: lens) (simp_all add: step ns)
  show ?thesis
    by (simp add: num_stops_def autolens_to_optiland_def Let_def add_wavelengths_keeps
        foldl_add_field set_field_type_def set_aperture_def fold Optic_def)
qed

lemma num_primary_autolens_to_optiland:
  "num_primary (autolens_to_optiland d) = (if ad_wavelengths d = [] then 0 else 1)"
proof (cases "ad_wavelengths d = []")
  case True
  then show ?thesis
    by (simp add: num_primary_def autolens_to_optiland_def Let_def foldl_add_field
        set_field_type_def set_aperture_def wavelengths_foldl_add_surface Optic_def)
next
  case False
  let ?l = "foldl (\<lambda>l field_y. add_field field_y l)
      (set_field_type angle
        (set_aperture (ap_type (ad_aperture d)) (ap_value (ad_aperture d))
          (foldl (\<lambda>l sd. add_surface (sd_index sd) (surface_of_data sd) l)
            ((Optic None)\<lparr>name := (case lens_name d of
                                          None \<Rightarrow> Some ''AutoLens_Import''
                                        | Some n \<Rightarrow> n)\<rparr>)
            (ad_surfaces d))))
      (ad_fields d)"
  have empty: "wavelengths ?l = []"
    by (simp add: foldl_add_field set_field_type_def set_aperture_def
        wavelengths_foldl_add_surface Optic_def)
  have "num_primary (add_wavelengths 0 (ad_wavelengths d) ?l) = 1"
    using empty False by (intro num_primary_add_wavelengths) simp_all
  then show ?thesis
    using False by (simp add: autolens_to_optiland_def Let_def)
qed

lemma surfaces_OptimizedFresnelConcentrator:
  "surfaces OptimizedFresnelConcentrator =
     [default_surface\<lparr>thickness := PosInf\<rparr>,
      default_surface\<lparr>radius := Fin (OptimizedFresnelConcentrator_calculate_fresnel_radius
                         OptimizedFresnelConcentrator_focal_length),
                       thickness := Fin 8.0, material := Some ''N-BK7'', is_stop := True\<rparr>,
      default_surface\<lparr>radius := PosInf,
                       thickness := Fin OptimizedFresnelConcentrator_focal_length\<rparr>,
      default_surface]"
  by (simp add: OptimizedFresnelConcentrator_def statements_def add_surface_def
        add_wavelength_def add_field_def set_field_type_def set_aperture_def Optic_def)

lemma wavelengths_OptimizedFresnelConcentrator:
  "wavelengths OptimizedFresnelConcentrator =
     [\<lparr>wl_value = 0.486, is_primary = True\<rparr>,
      \<lparr>wl_value = 0.587, is_primary = False\<rparr>,
      \<lparr>wl_value = 0.656, is_primary = False\<rparr>]"
  by (simp add: OptimizedFresnelConcentrator_def statements_def add_surface_def
        add_wavelength_def add_field_def set_field_type_def set_aperture_def Optic_def)

lemma reads_succeed_attributes_exposed: "reads_succeed attributes_exposed s"
  by (simp add: reads_succeed_def attributes_exposed_def)

subsection \<open>C3: the round trip through the AutoLens dictionary\<close>

text \<open>
  Claim C3 as stated fails, even with a library that answers every attribute read.
  For the lens of \<^verbatim>\<open>OptimizedFresnelConcentrator\<close>, converting with
  \<^verbatim>\<open>optiland_to_autolens\<close> and back with \<^verbatim>\<open>autolens_to_optiland\<close> gives a
  different lens: the stop marking of surface 1 is gone, and the primary wavelength
  is the second one instead of the first. For the endoscope with an aperture given
  as F-number 4, the lens that comes back has an entrance pupil diameter of 1200 as
  its aperture.
\<close>

theorem roundtrip_loses_stop_and_primary:
  "map is_stop (surfaces OptimizedFresnelConcentrator) = [False, True, False, False]
   \<and> map is_stop (surfaces (autolens_to_optiland
          (optiland_to_autolens attributes_exposed OptimizedFresnelConcentrator)))
       = [False, False, False, False]
   \<and> map is_primary (wavelengths OptimizedFresnelConcentrator) = [True, False, False]
   \<and> map is_primary (wavelengths (autolens_to_optiland
          (optiland_to_autolens attributes_exposed OptimizedFresnelConcentrator)))
       = [False, True, False]
   \<and> autolens_to_optiland (optiland_to_autolens attributes_exposed OptimizedFresnelConcentrator)
       \<noteq> OptimizedFresnelConcentrator
   \<and> aperture endoscope_with_f_number = Some \<lparr>ap_type = imageFNO, ap_value = 4\<rparr>
   \<and> aperture (autolens_to_optiland
          (optiland_to_autolens attributes_exposed endoscope_with_f_number))
       = Some \<lparr>ap_type = EPD, ap_value = 1200\<rparr>"
proof -
  let ?r = "autolens_to_optiland (optiland_to_autolens attributes_exposed OptimizedFresnelConcentrator)"
  have s: "map is_stop (surfaces OptimizedFresnelConcentrator) = [False, True, False, False]"
    by (simp add: surfaces_OptimizedFresnelConcentrator default_surface_def)
  have w: "map is_primary (wavelengths OptimizedFresnelConcentrator) = [True, False, False]"
    by (simp add: wavelengths_OptimizedFresnelConcentrator)
  have s': "map is_stop (surfaces ?r) = [False, False, False, False]"
    by (simp add: roundtrip_surfaces surfaces_OptimizedFresnelConcentrator)
  have w': "map is_primary (wavelengths ?r) = [False, True, False]"
    by (simp add: autolens_to_optiland_of_optiland_to_autolens
        wavelengths_OptimizedFresnelConcentrator add_wavelength_def)
  have ne: "?r \<noteq> OptimizedFresnelConcentrator"
    using s s' by auto
  have a: "aperture endoscope_with_f_number = Some \<lparr>ap_type = imageFNO, ap_value = 4\<rparr>"
    by (simp add: endoscope_with_f_number_def set_aperture_def)
  have a': "aperture (autolens_to_optiland
          (optiland_to_autolens attributes_exposed endoscope_with_f_number))
       = Some \<lparr>ap_type = EPD, ap_value = 1200\<rparr>"
    by (simp add: autolens_to_optiland_of_optiland_to_autolens add_wavelengths_keeps
        attributes_exposed_def)
  from s s' w w' ne a a' show ?thesis by simp
qed

text \<open>
  Claim C3, amended. For every lens and every library, converting with
  \<^verbatim>\<open>optiland_to_autolens\<close> and back with \<^verbatim>\<open>autolens_to_optiland\<close> keeps the
  name, the field list and the wavelength values, and gives every surface, in its
  place, the radius, thickness, conic constant and material that the attribute reads
  of \<^verbatim>\<open>optiland_to_autolens\<close> obtained for it: a flat radius, an infinite
  thickness, conic 0 and no medium where a read failed. So where the reads succeed on
  every surface, the radius, thickness and conic constant of every surface are kept,
  and its material too, except that a material named "air" comes back as no medium.
  The stop marking is not kept (no surface is marked), nor the aperture (type EPD,
  value twice the aperture radius the library reports, or 1200 when it reports none),
  nor the field type (angle). Which wavelength is primary afterwards is not part of
  this statement.
\<close>

theorem roundtrip_keeps_prescription:
  "(let l' = autolens_to_optiland (optiland_to_autolens lib l) in
      name l' = name l
      \<and> fields_y l' = fields_y l
      \<and> map wl_value (wavelengths l') = map wl_value (wavelengths l)
      \<and> map radius (surfaces l')
          = map (\<lambda>s. case read_radius lib s of Some x \<Rightarrow> x | None \<Rightarrow> PosInf) (surfaces l)
      \<and> map thickness (surfaces l')
          = map (\<lambda>s. case read_thickness lib s of Some x \<Rightarrow> x | None \<Rightarrow> PosInf) (surfaces l)
      \<and> map conic (surfaces l')
          = map (\<lambda>s. case read_conic lib s of Some c \<Rightarrow> c | None \<Rightarrow> 0) (surfaces l)
      \<and> map material (surfaces l')
          = map (\<lambda>s. case read_material lib s of
                        Some (Some m) \<Rightarrow> if m = ''air'' then None else Some m
                      | Some None \<Rightarrow> None
                      | None \<Rightarrow> None) (surfaces l)
      \<and> (list_all (reads_succeed lib) (surfaces l) \<longrightarrow>
            map radius (surfaces l') = map radius (surfaces l)
            \<and> map thickness (surfaces l') = map thickness (surfaces l)
            \<and> map conic (surfaces l') = map conic (surfaces l)
            \<and> map material (surfaces l')
                = map (\<lambda>s. if material s = Some ''air'' then None else material s) (surfaces l))
      \<and> map is_stop (surfaces l') = replicate (length (surfaces l)) False
      \<and> aperture l' = Some \<lparr>ap_type = EPD,
            ap_value = (case aperture_radius lib l of Some r \<Rightarrow> r * 2 | None \<Rightarrow> 1200)\<rparr>
      \<and> field_type l' = Some angle)"
proof -
  let ?l' = "autolens_to_optiland (optiland_to_autolens lib l)"
  have n: "name ?l' = name l" and f: "fields_y ?l' = fields_y l"
    and ap: "aperture ?l' = Some \<lparr>ap_type = EPD,
            ap_value = (case aperture_radius lib l of Some r \<Rightarrow> r * 2 | None \<Rightarrow> 1200)\<rparr>"
    and ft: "field_type ?l' = Some angle"
    by (simp_all add: autolens_to_optiland_of_optiland_to_autolens add_wavelengths_keeps)
  have wv: "map wl_value (wavelengths ?l') = map wl_value (wavelengths l)"
    by (simp add: autolens_to_optiland_of_optiland_to_autolens wl_value_add_wavelengths)
  have r: "map radius (surfaces ?l')
          = map (\<lambda>s. case read_radius lib s of Some x \<Rightarrow> x | None \<Rightarrow> PosInf) (surfaces l)"
    and t: "map thickness (surfaces ?l')
          = map (\<lambda>s. case read_thickness lib s of Some x \<Rightarrow> x | None \<Rightarrow> PosInf) (surfaces l)"
    and c: "map conic (surfaces ?l')
          = map (\<lambda>s. case read_conic lib s of Some c \<Rightarrow> c | None \<Rightarrow> 0) (surfaces l)"
    and m: "map material (surfaces ?l')
          = map (\<lambda>s. case read_material lib s of
                        Some (Some m) \<Rightarrow> if m = ''air'' then None else Some m
                      | Some None \<Rightarrow> None
                      | None \<Rightarrow> None) (surfaces l)"
    and st: "map is_stop (surfaces ?l') = replicate (length (surfaces l)) False"
    by (simp_all add: roundtrip_surfaces o_def map_replicate_const)
  have ok: "map radius (surfaces ?l') = map radius (surfaces l)
            \<and> map thickness (surfaces ?l') = map thickness (surfaces l)
            \<and> map conic (surfaces ?l') = map conic (surfaces l)
            \<and> map material (surfaces ?l')
                = map (\<lambda>s. if material s = Some ''air'' then None else material s) (surfaces l)"
    if "list_all (reads_succeed lib) (surfaces l)"
  proof -
    have each: "\<And>s. s \<in> set (surfaces l) \<Longrightarrow> reads_succeed lib s"
      using that by (simp add: list_all_iff)
    have "map (\<lambda>s. case read_radius lib s of Some x \<Rightarrow> x | None \<Rightarrow> PosInf) (surfaces l)
        = map radius (surfaces l)"
      by (rule map_cong) (use each in \<open>auto simp: reads_succeed_def\<close>)
    moreover have "map (\<lambda>s. case read_thickness lib s of Some x \<Rightarrow> x | None \<Rightarrow> PosInf) (surfaces l)
        = map thickness (surfaces l)"
      by (rule map_cong) (use each in \<open>auto simp: reads_succeed_def\<close>)
    moreover have "map (\<lambda>s. case read_conic lib s of Some c \<Rightarrow> c | None \<Rightarrow> 0) (surfaces l)
        = map conic (surfaces l)"
      by (rule map_cong) (use each in \<open>auto simp: reads_succeed_def\<close>)
    moreover have "map (\<lambda>s. case read_material lib s of
                        Some (Some m) \<Rightarrow> if m = ''air'' then None else Some m
                      | Some None \<Rightarrow> None
                      | None \<Rightarrow> None) (surfaces l)
        = map (\<lambda>s. if material s = Some ''air'' then None else material s) (surfaces l)"
      by (rule map_cong) (use each in \<open>auto simp: reads_succeed_def split: option.splits\<close>)
    ultimately show ?thesis using r t c m by simp
  qed
  show ?thesis
    unfolding Let_def
    using n f wv r t c m ok st ap ft by blast
qed

text \<open>
  Witness for C3: with a library that answers every attribute read, the reads
  succeed on the four surfaces of \<^verbatim>\<open>create_realistic_fresnel_lens\<close>, and the
  lens comes back with its radii and materials.
\<close>

theorem roundtrip_keeps_prescription_witness:
  "list_all (reads_succeed attributes_exposed) (surfaces create_realistic_fresnel_lens)
   \<and> map radius (surfaces (autolens_to_optiland
         (optiland_to_autolens attributes_exposed create_realistic_fresnel_lens)))
       = [PosInf, Fin 653.245, Fin (- 653.245), PosInf]
   \<and> map radius (surfaces create_realistic_fresnel_lens)
       = [PosInf, Fin 653.245, Fin (- 653.245), PosInf]
   \<and> map material (surfaces (autolens_to_optiland
         (optiland_to_autolens attributes_exposed create_realistic_fresnel_lens)))
       = [None, Some ''N-BK7'', None, None]"
proof -
  have s: "surfaces create_realistic_fresnel_lens =
     [default_surface\<lparr>thickness := PosInf\<rparr>,
      default_surface\<lparr>thickness := Fin 8.0, radius := Fin 653.245,
                       is_stop := True, material := Some ''N-BK7''\<rparr>,
      default_surface\<lparr>thickness := Fin 1265.0, radius := Fin (- 653.245)\<rparr>,
      default_surface]"
    by (simp add: create_realistic_fresnel_lens_def statements_def add_surface_def
        add_wavelength_def add_field_def set_field_type_def set_aperture_def Optic_def)
  have h: "list_all (reads_succeed attributes_exposed) (surfaces create_realistic_fresnel_lens)"
    by (simp add: list_all_iff reads_succeed_attributes_exposed)
  have mr: "map radius (surfaces create_realistic_fresnel_lens)
       = [PosInf, Fin 653.245, Fin (- 653.245), PosInf]"
    by (simp add: s default_surface_def)
  have mm: "map (\<lambda>s. if material s = Some ''air'' then None else material s)
        (surfaces create_realistic_fresnel_lens) = [None, Some ''N-BK7'', None, None]"
    by (simp add: s default_surface_def)
  let ?l' = "autolens_to_optiland (optiland_to_autolens attributes_exposed
      create_realistic_fresnel_lens)"
  have "list_all (reads_succeed attributes_exposed) (surfaces create_realistic_fresnel_lens) \<longrightarrow>
            map radius (surfaces ?l') = map radius (surfaces create_realistic_fresnel_lens)
            \<and> map thickness (surfaces ?l') = map thickness (surfaces create_realistic_fresnel_lens)
            \<and> map conic (surfaces ?l') = map conic (surfaces create_realistic_fresnel_lens)
            \<and> map material (surfaces ?l')
                = map (\<lambda>s. if material s = Some ''air'' then None else material s)
                    (surfaces create_realistic_fresnel_lens)"
    using roundtrip_keeps_prescription [of attributes_exposed create_realistic_fresnel_lens]
    unfolding Let_def by blast
  with h have "map radius (surfaces ?l') = map radius (surfaces create_realistic_fresnel_lens)"
    and "map material (surfaces ?l')
                = map (\<lambda>s. if material s = Some ''air'' then None else material s)
                    (surfaces create_realistic_fresnel_lens)"
    by blast+
  with h mr mm show ?thesis by (simp only: simp_thms)
qed

subsection \<open>C7: structural invariants of the built lenses\<close>

lemmas builder_steps =
  statements_def add_surface_def add_wavelength_def add_field_def set_field_type_def
  set_aperture_def Optic_def default_surface_def num_stops_def num_primary_def

lemma fresnel_builders_invariants:
  "num_stops LargeFresnelConcentrator = 1 \<and> num_primary LargeFresnelConcentrator = 1
   \<and> num_stops OptimizedFresnelConcentrator = 1 \<and> num_primary OptimizedFresnelConcentrator = 1
   \<and> num_stops (RealisticSolarConcentrator target_concentration) = 1
   \<and> num_primary (RealisticSolarConcentrator target_concentration) = 1
   \<and> num_stops create_realistic_fresnel_lens = 1 \<and> num_primary create_realistic_fresnel_lens = 1"
  by (simp add: LargeFresnelConcentrator_def OptimizedFresnelConcentrator_def
      RealisticSolarConcentrator_def create_realistic_fresnel_lens_def builder_steps)

lemma RealisticFresnelConcentrator_invariants:
  "(case RealisticFresnelConcentrator irradiance_condition of
      Inl e \<Rightarrow> e = KeyError irradiance_condition
    | Inr lens \<Rightarrow> num_stops lens = 1 \<and> num_primary lens = 1)"
  by (cases "map_of irradiance_conditions irradiance_condition")
     (simp_all add: RealisticFresnelConcentrator_def builder_steps)

lemma fisheye_builders_invariants:
  "num_stops WideAngleFisheyeLens = 1 \<and> num_primary WideAngleFisheyeLens = 1
   \<and> num_stops WideAngleFisheyeLens_v2 = 1 \<and> num_primary WideAngleFisheyeLens_v2 = 1"
  by (simp add: WideAngleFisheyeLens_def WideAngleFisheyeLens_v2_def builder_steps)

lemma endoscope_builders_invariants:
  "num_stops SimpleEndoscope = 1 \<and> num_primary SimpleEndoscope = 1
   \<and> num_stops EndoscopeLens_analysis = 1 \<and> num_primary EndoscopeLens_analysis = 1
   \<and> num_stops EndoscopeLens_simple = 1 \<and> num_primary EndoscopeLens_simple = 1"
  by (simp add: SimpleEndoscope_def EndoscopeLens_analysis_def EndoscopeLens_simple_def
      builder_steps)

lemma Endoscope_invariants:
  "num_stops Endoscope = 1 \<and> num_primary Endoscope = 1"
  by (simp add: Endoscope_def Let_def builder_steps)

text \<open>
  Claim C7 as stated fails for one kind of input specification: for a wavelength list
  that is empty, the loop of \<^verbatim>\<open>autolens_to_optiland\<close> adds nothing, so the lens
  it returns has no wavelength and hence no primary one.
\<close>

theorem no_wavelengths_no_primary:
  "wavelengths (autolens_to_optiland no_wavelength_spec) = []
   \<and> num_primary (autolens_to_optiland no_wavelength_spec) = 0
   \<and> num_primary (autolens_to_optiland no_wavelength_spec) \<noteq> 1"
  by (simp add: no_wavelength_spec_def num_primary_def autolens_to_optiland_def add_field_def
      set_field_type_def set_aperture_def Optic_def)

text \<open>
  Claim C7, amended. Every lens the builders of the scripts construct has exactly
  one surface marked stop and exactly one wavelength marked primary: the four
  Fresnel concentrators (one of them for every concentration target, one for every
  irradiance condition its dictionary has; for another condition the constructor
  raises \<^verbatim>\<open>KeyError\<close> and builds nothing), the lens of
  \<^verbatim>\<open>create_realistic_fresnel_lens\<close>, the two fisheye lenses and the four
  endoscopes. Every lens \<^verbatim>\<open>autolens_to_optiland\<close> produces has no surface marked
  stop and, for every input specification with at least one wavelength, exactly one
  wavelength marked primary, in particular for a wavelength list of length one.
\<close>

theorem built_lenses_keep_invariants:
  "num_stops LargeFresnelConcentrator = 1 \<and> num_primary LargeFresnelConcentrator = 1
   \<and> num_stops OptimizedFresnelConcentrator = 1 \<and> num_primary OptimizedFresnelConcentrator = 1
   \<and> num_stops (RealisticSolarConcentrator target_concentration) = 1
   \<and> num_primary (RealisticSolarConcentrator target_concentration) = 1
   \<and> (case RealisticFresnelConcentrator irradiance_condition of
        Inl e \<Rightarrow> e = KeyError irradiance_condition
      | Inr lens \<Rightarrow> num_stops lens = 1 \<and> num_primary lens = 1)
   \<and> num_stops create_realistic_fresnel_lens = 1 \<and> num_primary create_realistic_fresnel_lens = 1
   \<and> num_stops WideAngleFisheyeLens = 1 \<and> num_primary WideAngleFisheyeLens = 1
   \<and> num_stops WideAngleFisheyeLens_v2 = 1 \<and> num_primary WideAngleFisheyeLens_v2 = 1
   \<and> num_stops SimpleEndoscope = 1 \<and> num_primary SimpleEndoscope = 1
   \<and> num_stops EndoscopeLens_analysis = 1 \<and> num_primary EndoscopeLens_analysis = 1
   \<and> num_stops EndoscopeLens_simple = 1 \<and> num_primary EndoscopeLens_simple = 1
   \<and> num_stops Endoscope = 1 \<and> num_primary Endoscope = 1
   \<and> num_stops (autolens_to_optiland d) = 0
   \<and> num_primary (autolens_to_optiland d) = (if ad_wavelengths d = [] then 0 else 1)
   \<and> num_primary (autolens_to_optiland single_wavelength_spec) = 1"
proof -
  have one: "num_primary (autolens_to_optiland single_wavelength_spec) = 1"
    by (simp add: num_primary_autolens_to_optiland single_wavelength_spec_def)
  show ?thesis
    using fresnel_builders_invariants [of target_concentration]
      RealisticFresnelConcentrator_invariants [of irradiance_condition]
      fisheye_builders_invariants endoscope_builders_invariants Endoscope_invariants
      num_stops_autolens_to_optiland [of d] num_primary_autolens_to_optiland [of d] one
    by simp
qed

subsection \<open>C2: the focal length of the realistic Fresnel lens\<close>

lemma surfaces_create_realistic_fresnel_lens:
  "surfaces create_realistic_fresnel_lens =
     [default_surface\<lparr>thickness := PosInf\<rparr>,
      default_surface\<lparr>thickness := Fin 8.0, radius := Fin 653.245,
                       is_stop := True, material := Some ''N-BK7''\<rparr>,
      default_surface\<lparr>thickness := Fin 1265.0, radius := Fin (- 653.245)\<rparr>,
      default_surface]"
  by (simp add: create_realistic_fresnel_lens_def statements_def add_surface_def
        add_wavelength_def add_field_def set_field_type_def set_aperture_def Optic_def)

lemma surfaces_plano_convex_scenario:
  "surfaces plano_convex_scenario =
     [default_surface\<lparr>thickness := PosInf\<rparr>,
      default_surface\<lparr>thickness := Fin 8, radius := Fin 653.245,
                       is_stop := True, material := Some ''N-BK7''\<rparr>,
      default_surface\<lparr>thickness := Fin 1265, radius := PosInf\<rparr>,
      default_surface]"
  by (simp add: plano_convex_scenario_def statements_def add_surface_def Optic_def)

text \<open>
  The prescription of the specification's scenario has focal length
  \<open>R / (n - 1) = 653245 / 517\<close>, about 1263.53, within one percent of 1265.
\<close>

lemma effective_focal_length_plano_convex_scenario:
  "effective_focal_length glass_catalog plano_convex_scenario = Inr (653245 / 517)
   \<and> within_one_percent 1265 (653245 / 517)"
  by (simp add: effective_focal_length_def surfaces_plano_convex_scenario num_stops_def
      default_surface_def refractive_index_def curvature_def glass_catalog_def n_bk7_def
      within_one_percent_def)

text \<open>
  Claim C2, evaluated on the lens the function builds. The second surface of
  \<^verbatim>\<open>create_realistic_fresnel_lens\<close> has radius -653.245, not a flat one, so the
  lens is biconvex: its paraxial focal length is 129469587709585 / 204505484722,
  about 633.09, which is not within one percent of the 1265.0 the function records
  as the focal length of the lens.
\<close>

theorem create_realistic_fresnel_lens_focal_length_is_halved:
  "effective_focal_length glass_catalog create_realistic_fresnel_lens
     = Inr (129469587709585 / 204505484722)
   \<and> \<not> within_one_percent create_realistic_fresnel_lens_focal_length
         (129469587709585 / 204505484722)
   \<and> (633 :: real) < 129469587709585 / 204505484722
   \<and> (129469587709585 / 204505484722 :: real) < 634"
  by (simp add: effective_focal_length_def surfaces_create_realistic_fresnel_lens num_stops_def
      default_surface_def refractive_index_def curvature_def glass_catalog_def n_bk7_def
      within_one_percent_def create_realistic_fresnel_lens_focal_length_def)

end
